theory Spec2Isabelle
  imports Main "HOL-Library.Word"
begin

unbundle bit_operations_syntax

section \<open>The console emulation of pkg/term/console\_windows.go\<close>

text \<open>
  The Go file translates ANSI escape sequences into calls of the Win32 console and key
  events of the console into ANSI byte sequences. Its machine integers are words:
  \<open>SHORT\<close> is Go's \<open>int16\<close>, a 16-bit word read in two's complement by \<open>sint\<close> and
  compared by \<open><s\<close> and \<open>\<le>s\<close>; \<open>WORD\<close> and \<open>WCHAR\<close> are \<open>uint16\<close>, \<open>DWORD\<close> is
  \<open>uint32\<close>. Arithmetic on them wraps, as Go's does. A conversion \<open>uint32(x)\<close> of an
  \<open>int16\<close> extends the sign (\<open>scast\<close>), of a \<open>uint16\<close> it extends by zeros (\<open>ucast\<close>).
\<close>

type_synonym SHORT = "16 word"
type_synonym WORD = "16 word"
type_synonym WCHAR = "16 word"
type_synonym DWORD = "32 word"
type_synonym byte = "8 word"

record COORD =
  X :: SHORT
  Y :: SHORT

record SMALL_RECT =
  Left :: SHORT
  Top :: SHORT
  Right :: SHORT
  Bottom :: SHORT

record CONSOLE_SCREEN_BUFFER_INFO =
  Size :: COORD
  CursorPosition :: COORD
  Attributes :: WORD
  Window :: SMALL_RECT
  MaximumWindowSize :: COORD

text \<open>\<open>BOOL\<close> is Go's \<open>int\<close>; the code only stores 0 and 1 in it and compares it with 1.\<close>

type_synonym BOOL = int

record CONSOLE_CURSOR_INFO =
  CursorSize :: DWORD
  Visible :: BOOL

record KEY_EVENT_RECORD =
  KeyDown :: BOOL
  RepeatCount :: WORD
  VirtualKeyCode :: WORD
  VirtualScanCode :: WORD
  UnicodeChar :: WCHAR
  ControlKeyState :: DWORD

record INPUT_RECORD =
  EventType :: WORD
  KeyEvent :: KEY_EVENT_RECORD

subsection \<open>Errors, panics and the native console\<close>

text \<open>
  An \<open>error\<close> is what a Go \<open>error\<close> value of this file can be: \<open>syscall.EINVAL\<close>, an
  error number reported by the operating system, or one of the two errors of
  \<open>strconv.ParseInt\<close>. Go's \<open>nil\<close> error is \<open>None\<close>. A function that can panic returns
  an \<open>outcome\<close>: \<open>Panics\<close> with the message, or \<open>Returns\<close> with its results.
\<close>

datatype error = EINVAL | Errno nat | ErrSyntax | ErrRange

datatype 'a outcome = Panics string | Returns 'a

text \<open>
  The procedures of kernel32.dll (lines 123 to 133) with the arguments the code passes.
  The handle is left out: every output call of \<open>HandleOutputCommand\<close> goes to the
  standard output handle.
\<close>

datatype native_call =
    getConsoleScreenBufferInfoProc
  | setConsoleCursorPositionProc DWORD
  | setConsoleTextAttributeProc WORD
  | fillConsoleOutputCharacterProc byte DWORD DWORD
  | getConsoleCursorInfoProc
  | setConsoleCursorInfoProc CONSOLE_CURSOR_INFO

text \<open>
  The console is outside the program. A \<open>console\<close> holds the calls issued so far, oldest
  first, and what the operating system answers: for a call and the calls before it, the
  pair \<open>(r, err)\<close> that \<open>Call\<close> returns, and the structure a successful query writes
  through its pointer argument. Nothing is assumed about these answers.
\<close>

record console =
  issued :: "native_call list"
  status :: "native_call list \<Rightarrow> native_call \<Rightarrow> nat \<times> error option"
  bufferInfo :: "native_call list \<Rightarrow> CONSOLE_SCREEN_BUFFER_INFO"
  cursorInfo :: "native_call list \<Rightarrow> CONSOLE_CURSOR_INFO"

definition Call :: "native_call \<Rightarrow> console \<Rightarrow> (nat \<times> error option) \<times> console" where
  "Call c k = (status k (issued k) c, k\<lparr>issued := issued k @ [c]\<rparr>)"

text \<open>\<open>marshal\<close> (lines 886 to 890) packs a coordinate into 32 bits, \<open>Y\<close> in the high half.\<close>

definition marshal :: "COORD \<Rightarrow> DWORD" where
  "marshal c = push_bit 16 (ucast (Y c)) OR ucast (X c)"

text \<open>
  The wrappers of the native calls (lines 232 to 289). \<open>GetConsoleScreenBufferInfo\<close>
  returns either a nil pointer and an error or the structure and a nil error: a sum.
\<close>

definition SetCursorVisible :: "BOOL \<Rightarrow> console \<Rightarrow> (bool \<times> error option) \<times> console" where
  "SetCursorVisible isVisible k =
     (case Call getConsoleCursorInfoProc k of
        ((r, err), k1) \<Rightarrow>
          if r = 0 then (if err \<noteq> None then ((False, err), k1) else ((False, Some EINVAL), k1))
          else
            (case Call (setConsoleCursorInfoProc ((cursorInfo k (issued k))\<lparr>Visible := isVisible\<rparr>)) k1 of
               ((r', err'), k2) \<Rightarrow>
                 if r' = 0 then
                   (if err' \<noteq> None then ((False, err'), k2) else ((False, Some EINVAL), k2))
                 else ((True, None), k2)))"

definition GetConsoleScreenBufferInfo ::
  "console \<Rightarrow> (error + CONSOLE_SCREEN_BUFFER_INFO) \<times> console" where
  "GetConsoleScreenBufferInfo k =
     (case Call getConsoleScreenBufferInfoProc k of
        ((r, err), k1) \<Rightarrow>
          if r = 0 then (case err of Some e \<Rightarrow> (Inl e, k1) | None \<Rightarrow> (Inl EINVAL, k1))
          else (Inr (bufferInfo k (issued k)), k1))"

definition setConsoleTextAttribute :: "WORD \<Rightarrow> console \<Rightarrow> (bool \<times> error option) \<times> console" where
  "setConsoleTextAttribute attribute k =
     (case Call (setConsoleTextAttributeProc attribute) k of
        ((r, err), k1) \<Rightarrow>
          if r = 0 then (if err \<noteq> None then ((False, err), k1) else ((False, Some EINVAL), k1))
          else ((True, None), k1))"

definition fillConsoleOutputCharacter ::
  "byte \<Rightarrow> DWORD \<Rightarrow> COORD \<Rightarrow> console \<Rightarrow> (bool \<times> error option) \<times> console" where
  "fillConsoleOutputCharacter fillChar len writeCord k =
     (case Call (fillConsoleOutputCharacterProc fillChar len (marshal writeCord)) k of
        ((r, err), k1) \<Rightarrow>
          if r = 0 then (if err \<noteq> None then ((False, err), k1) else ((False, Some EINVAL), k1))
          else ((True, None), k1))"

subsection \<open>The number of cells of a clear range\<close>

text \<open>
  \<open>getNumberOfChars\<close> (lines 292 to 320). The subtraction \<open>toCoord.X - fromCoord.X\<close>
  and the product \<open>linesBetween * screenSize.X\<close> are computed in \<open>int16\<close> and only
  then converted to \<open>uint32\<close>; the sums are \<open>uint32\<close> sums.
\<close>

definition getNumberOfChars :: "COORD \<Rightarrow> COORD \<Rightarrow> COORD \<Rightarrow> DWORD" where
  "getNumberOfChars fromCoord toCoord screenSize =
     (if X fromCoord <s 0 \<or> Y fromCoord <s 0 \<or> X toCoord <s 0 \<or> Y toCoord <s 0 then 0
      else if X screenSize \<le>s X fromCoord \<or> Y screenSize \<le>s Y fromCoord
              \<or> X screenSize \<le>s X toCoord \<or> Y screenSize \<le>s Y toCoord then 0
      else if Y toCoord <s Y fromCoord then 0
      else if Y fromCoord = Y toCoord then scast (X toCoord - X fromCoord) + 1
      else if Y fromCoord <s Y toCoord then
        (let retValue = scast (X screenSize - X fromCoord) + scast (X toCoord) + 1;
             linesBetween = Y toCoord - Y fromCoord - 1
         in if 0 <s linesBetween then retValue + scast (linesBetween * X screenSize)
            else retValue)
      else 0)"

text \<open>\<open>clearDisplayRange\<close> (lines 322 to 335): no native call when the count is 0.\<close>

definition clearDisplayRange ::
  "byte \<Rightarrow> COORD \<Rightarrow> COORD \<Rightarrow> COORD \<Rightarrow> console \<Rightarrow> (bool \<times> error option) \<times> console" where
  "clearDisplayRange fillChar fromCoord toCoord windowSize k =
     (let totalChars = getNumberOfChars fromCoord toCoord windowSize
      in if 0 < totalChars then
           (case fillConsoleOutputCharacter fillChar totalChars fromCoord k of
              ((r, err), k1) \<Rightarrow>
                if \<not> r then
                  (if err \<noteq> None then ((False, err), k1) else ((False, Some EINVAL), k1))
                else ((True, None), k1))
         else ((True, None), k))"

text \<open>
  \<open>setConsoleCursorPosition\<close> (lines 340 to 364) reads the buffer information first,
  also for an absolute move, and gives up with the error of that query.
\<close>

definition setConsoleCursorPosition ::
  "bool \<Rightarrow> SHORT \<Rightarrow> SHORT \<Rightarrow> console \<Rightarrow> (bool \<times> error option) \<times> console" where
  "setConsoleCursorPosition isRelative column line k =
     (case GetConsoleScreenBufferInfo k of
        (Inl err, k1) \<Rightarrow> ((False, Some err), k1)
      | (Inr screenBufferInfo, k1) \<Rightarrow>
          (let position =
                 (if isRelative then
                    \<lparr>X = X (CursorPosition screenBufferInfo) + column,
                     Y = Y (CursorPosition screenBufferInfo) + line\<rparr>
                  else \<lparr>X = column, Y = line\<rparr>)
           in case Call (setConsoleCursorPositionProc (marshal position)) k1 of
                ((r, err), k2) \<Rightarrow>
                  if r = 0 then
                    (if err \<noteq> None then ((False, err), k2) else ((False, Some EINVAL), k2))
                  else ((True, None), k2)))"

subsection \<open>The attribute translator\<close>

text \<open>The character attributes and the ECMA-48 graphics values (lines 29 to 80).\<close>

abbreviation (input) FOREGROUND_BLUE :: WORD where "FOREGROUND_BLUE \<equiv> 1"
abbreviation (input) FOREGROUND_GREEN :: WORD where "FOREGROUND_GREEN \<equiv> 2"
abbreviation (input) FOREGROUND_RED :: WORD where "FOREGROUND_RED \<equiv> 4"
abbreviation (input) FOREGROUND_INTENSITY :: WORD where "FOREGROUND_INTENSITY \<equiv> 8"
abbreviation (input) FOREGROUND_MASK_SET :: WORD where "FOREGROUND_MASK_SET \<equiv> 0x000F"
abbreviation (input) FOREGROUND_MASK_UNSET :: WORD where "FOREGROUND_MASK_UNSET \<equiv> 0xFFF0"
abbreviation (input) BACKGROUND_BLUE :: WORD where "BACKGROUND_BLUE \<equiv> 16"
abbreviation (input) BACKGROUND_GREEN :: WORD where "BACKGROUND_GREEN \<equiv> 32"
abbreviation (input) BACKGROUND_RED :: WORD where "BACKGROUND_RED \<equiv> 64"
abbreviation (input) BACKGROUND_INTENSITY :: WORD where "BACKGROUND_INTENSITY \<equiv> 128"
abbreviation (input) BACKGROUND_MASK_SET :: WORD where "BACKGROUND_MASK_SET \<equiv> 0x00F0"
abbreviation (input) BACKGROUND_MASK_UNSET :: WORD where "BACKGROUND_MASK_UNSET \<equiv> 0xFF0F"
abbreviation (input) COMMON_LVB_UNDERSCORE :: WORD where "COMMON_LVB_UNDERSCORE \<equiv> 0x8000"

abbreviation (input) ANSI_ATTR_RESET :: SHORT where "ANSI_ATTR_RESET \<equiv> 0"
abbreviation (input) ANSI_ATTR_BOLD :: SHORT where "ANSI_ATTR_BOLD \<equiv> 1"
abbreviation (input) ANSI_ATTR_DIM :: SHORT where "ANSI_ATTR_DIM \<equiv> 2"
abbreviation (input) ANSI_ATTR_UNDERLINE :: SHORT where "ANSI_ATTR_UNDERLINE \<equiv> 4"
abbreviation (input) ANSI_ATTR_BLINK :: SHORT where "ANSI_ATTR_BLINK \<equiv> 5"
abbreviation (input) ANSI_ATTR_REVERSE :: SHORT where "ANSI_ATTR_REVERSE \<equiv> 7"
abbreviation (input) ANSI_ATTR_INVISIBLE :: SHORT where "ANSI_ATTR_INVISIBLE \<equiv> 8"
abbreviation (input) ANSI_ATTR_UNDERLINE_OFF :: SHORT where "ANSI_ATTR_UNDERLINE_OFF \<equiv> 24"
abbreviation (input) ANSI_ATTR_BLINK_OFF :: SHORT where "ANSI_ATTR_BLINK_OFF \<equiv> 25"
abbreviation (input) ANSI_ATTR_REVERSE_OFF :: SHORT where "ANSI_ATTR_REVERSE_OFF \<equiv> 27"
abbreviation (input) ANSI_FOREGROUND_BLACK :: SHORT where "ANSI_FOREGROUND_BLACK \<equiv> 30"
abbreviation (input) ANSI_FOREGROUND_RED :: SHORT where "ANSI_FOREGROUND_RED \<equiv> 31"
abbreviation (input) ANSI_FOREGROUND_GREEN :: SHORT where "ANSI_FOREGROUND_GREEN \<equiv> 32"
abbreviation (input) ANSI_FOREGROUND_YELLOW :: SHORT where "ANSI_FOREGROUND_YELLOW \<equiv> 33"
abbreviation (input) ANSI_FOREGROUND_BLUE :: SHORT where "ANSI_FOREGROUND_BLUE \<equiv> 34"
abbreviation (input) ANSI_FOREGROUND_MAGENTA :: SHORT where "ANSI_FOREGROUND_MAGENTA \<equiv> 35"
abbreviation (input) ANSI_FOREGROUND_CYAN :: SHORT where "ANSI_FOREGROUND_CYAN \<equiv> 36"
abbreviation (input) ANSI_FOREGROUND_WHITE :: SHORT where "ANSI_FOREGROUND_WHITE \<equiv> 37"
abbreviation (input) ANSI_FOREGROUND_DEFAULT :: SHORT where "ANSI_FOREGROUND_DEFAULT \<equiv> 39"
abbreviation (input) ANSI_BACKGROUND_BLACK :: SHORT where "ANSI_BACKGROUND_BLACK \<equiv> 40"
abbreviation (input) ANSI_BACKGROUND_RED :: SHORT where "ANSI_BACKGROUND_RED \<equiv> 41"
abbreviation (input) ANSI_BACKGROUND_GREEN :: SHORT where "ANSI_BACKGROUND_GREEN \<equiv> 42"
abbreviation (input) ANSI_BACKGROUND_YELLOW :: SHORT where "ANSI_BACKGROUND_YELLOW \<equiv> 43"
abbreviation (input) ANSI_BACKGROUND_BLUE :: SHORT where "ANSI_BACKGROUND_BLUE \<equiv> 44"
abbreviation (input) ANSI_BACKGROUND_MAGENTA :: SHORT where "ANSI_BACKGROUND_MAGENTA \<equiv> 45"
abbreviation (input) ANSI_BACKGROUND_CYAN :: SHORT where "ANSI_BACKGROUND_CYAN \<equiv> 46"
abbreviation (input) ANSI_BACKGROUND_WHITE :: SHORT where "ANSI_BACKGROUND_WHITE \<equiv> 47"
abbreviation (input) ANSI_BACKGROUND_DEFAULT :: SHORT where "ANSI_BACKGROUND_DEFAULT \<equiv> 49"

text \<open>
  \<open>getWindowsTextAttributeForAnsiValue\<close> (lines 388 to 468), the cases in the order of
  the switch. \<open>flag &^= m\<close> is \<open>flag AND NOT m\<close>. The only way out of the function other
  than the final \<open>return flag, nil\<close> is the panic of the default case.
\<close>

definition getWindowsTextAttributeForAnsiValue ::
  "WORD \<Rightarrow> SHORT \<Rightarrow> (WORD \<times> error option) outcome" where
  "getWindowsTextAttributeForAnsiValue originalFlag ansiValue =
     (let flag = (if originalFlag = 0 then FOREGROUND_MASK_SET else originalFlag)
      in if ansiValue = ANSI_ATTR_RESET then
           Returns (((flag AND NOT COMMON_LVB_UNDERSCORE) AND NOT BACKGROUND_INTENSITY)
                      OR FOREGROUND_INTENSITY, None)
         else if ansiValue = ANSI_ATTR_INVISIBLE then Returns (flag, None)
         else if ansiValue = ANSI_ATTR_UNDERLINE then Returns (flag OR COMMON_LVB_UNDERSCORE, None)
         else if ansiValue = ANSI_ATTR_BLINK then Returns (flag OR BACKGROUND_INTENSITY, None)
         else if ansiValue = ANSI_ATTR_UNDERLINE_OFF then
           Returns (flag AND NOT COMMON_LVB_UNDERSCORE, None)
         else if ansiValue = ANSI_ATTR_BLINK_OFF then
           Returns (flag AND NOT BACKGROUND_INTENSITY, None)
         else if ansiValue = ANSI_ATTR_BOLD then Returns (flag OR FOREGROUND_INTENSITY, None)
         else if ansiValue = ANSI_ATTR_DIM then Returns (flag AND NOT FOREGROUND_INTENSITY, None)
         else if ansiValue = ANSI_ATTR_REVERSE \<or> ansiValue = ANSI_ATTR_REVERSE_OFF then
           (let foreground = flag AND FOREGROUND_MASK_SET;
                background = flag AND BACKGROUND_MASK_SET
            in Returns ((((flag AND BACKGROUND_MASK_UNSET) AND FOREGROUND_MASK_UNSET)
                           OR push_bit 4 foreground) OR drop_bit 4 background, None))
         else if ansiValue = ANSI_FOREGROUND_DEFAULT then Returns (flag OR FOREGROUND_MASK_SET, None)
         else if ansiValue = ANSI_FOREGROUND_BLACK then
           Returns (flag XOR ((FOREGROUND_RED OR FOREGROUND_GREEN) OR FOREGROUND_BLUE), None)
         else if ansiValue = ANSI_FOREGROUND_RED then
           Returns ((flag AND FOREGROUND_MASK_UNSET) OR FOREGROUND_RED, None)
         else if ansiValue = ANSI_FOREGROUND_GREEN then
           Returns ((flag AND FOREGROUND_MASK_UNSET) OR FOREGROUND_GREEN, None)
         else if ansiValue = ANSI_FOREGROUND_YELLOW then
           Returns (((flag AND FOREGROUND_MASK_UNSET) OR FOREGROUND_RED) OR FOREGROUND_GREEN, None)
         else if ansiValue = ANSI_FOREGROUND_BLUE then
           Returns ((flag AND FOREGROUND_MASK_UNSET) OR FOREGROUND_BLUE, None)
         else if ansiValue = ANSI_FOREGROUND_MAGENTA then
           Returns (((flag AND FOREGROUND_MASK_UNSET) OR FOREGROUND_RED) OR FOREGROUND_BLUE, None)
         else if ansiValue = ANSI_FOREGROUND_CYAN then
           Returns (((flag AND FOREGROUND_MASK_UNSET) OR FOREGROUND_GREEN) OR FOREGROUND_BLUE, None)
         else if ansiValue = ANSI_FOREGROUND_WHITE then
           Returns ((((flag AND FOREGROUND_MASK_UNSET) OR FOREGROUND_RED) OR FOREGROUND_GREEN)
                      OR FOREGROUND_BLUE, None)
         else if ansiValue = ANSI_BACKGROUND_DEFAULT then
           Returns (flag AND BACKGROUND_MASK_UNSET, None)
         else if ansiValue = ANSI_BACKGROUND_BLACK then
           Returns (flag AND BACKGROUND_MASK_UNSET, None)
         else if ansiValue = ANSI_BACKGROUND_RED then
           Returns ((flag AND BACKGROUND_MASK_UNSET) OR BACKGROUND_RED, None)
         else if ansiValue = ANSI_BACKGROUND_GREEN then
           Returns ((flag AND BACKGROUND_MASK_UNSET) OR BACKGROUND_GREEN, None)
         else if ansiValue = ANSI_BACKGROUND_YELLOW then
           Returns (((flag AND BACKGROUND_MASK_UNSET) OR BACKGROUND_RED) OR BACKGROUND_GREEN, None)
         else if ansiValue = ANSI_BACKGROUND_BLUE then
           Returns ((flag AND BACKGROUND_MASK_UNSET) OR BACKGROUND_BLUE, None)
         else if ansiValue = ANSI_BACKGROUND_MAGENTA then
           Returns (((flag AND BACKGROUND_MASK_UNSET) OR BACKGROUND_RED) OR BACKGROUND_BLUE, None)
         else if ansiValue = ANSI_BACKGROUND_CYAN then
           Returns (((flag AND BACKGROUND_MASK_UNSET) OR BACKGROUND_GREEN) OR BACKGROUND_BLUE, None)
         else if ansiValue = ANSI_BACKGROUND_WHITE then
           Returns ((((flag AND BACKGROUND_MASK_UNSET) OR BACKGROUND_RED) OR BACKGROUND_GREEN)
                      OR BACKGROUND_BLUE, None)
         else Panics ''Should not reach here'')"

text \<open>
  The reverse case of the translator as a function of the flag: the two colour fields of
  four bits change places, the other bits stay.
\<close>

definition swapColours :: "WORD \<Rightarrow> WORD" where
  "swapColours flag =
     (((flag AND BACKGROUND_MASK_UNSET) AND FOREGROUND_MASK_UNSET)
        OR push_bit 4 (flag AND FOREGROUND_MASK_SET)) OR drop_bit 4 (flag AND BACKGROUND_MASK_SET)"

subsection \<open>Parsed commands and numeric parameters\<close>

text \<open>
  The type of a parsed command is declared in another file of the package; the dispatcher
  reads its fields \<open>Command\<close> and \<open>Parameters\<close>.
\<close>

record ansiCommand =
  Command :: string
  Parameters :: "string list"

text \<open>
  Modelled from the spec: the method \<open>getParam\<close> of the parsed command is not in this
  file. The spec: "\<open>getParam(i)\<close> returns the i-th parameter or an empty string if absent".
\<close>

definition getParam :: "ansiCommand \<Rightarrow> nat \<Rightarrow> string" where
  "getParam c index = (if index < length (Parameters c) then Parameters c ! index else [])"

text \<open>
  \<open>strconv.ParseUint(s, 10, 16)\<close> of Go's standard library reads the bytes from the
  left. A byte that is not a decimal digit ends the scan with 0 and a syntax error. A
  digit that takes the number above 65535 ends the scan at once with 65535 and a range
  error: the bytes after it are not read. (Releases of Go before 1.10 return \<open>2^64 - 1\<close>
  with the range error; \<open>ParseInt\<close> below gives the same result for both.) The number
  never leaves 16 bits, so the two tests of the loop for an overflow of \<open>uint64\<close>
  never hold and are left out.
\<close>

fun scanDigits :: "string \<Rightarrow> nat \<Rightarrow> nat \<times> error option" where
  "scanDigits [] n = (n, None)"
| "scanDigits (c # cs) n =
     (if 48 \<le> (of_char c :: nat) \<and> (of_char c :: nat) \<le> 57 then
        (if 65535 < 10 * n + (of_char c - 48) then (65535, Some ErrRange)
         else scanDigits cs (10 * n + (of_char c - 48)))
      else (0, Some ErrSyntax))"

definition ParseUint :: "string \<Rightarrow> nat \<times> error option" where
  "ParseUint s = (if s = [] then (0, Some ErrSyntax) else scanDigits s 0)"

text \<open>
  \<open>strconv.ParseInt(s, 10, 16)\<close>: it takes a leading sign off, calls \<open>ParseUint\<close>,
  returns 0 with an error of \<open>ParseUint\<close> that is not the range error, and otherwise
  brings the number into \<open>int16\<close>: a number that does not fit gives the nearest bound
  and a range error.
\<close>

definition ParseInt :: "string \<Rightarrow> int \<times> error option" where
  "ParseInt s =
     (if s = [] then (0, Some ErrSyntax)
      else
        (let neg = (hd s = CHR ''-'');
             unsigned = (if hd s = CHR ''+'' \<or> hd s = CHR ''-'' then tl s else s)
         in case ParseUint unsigned of
              (un, err) \<Rightarrow>
                if err = Some ErrSyntax then (0, err)
                else if \<not> neg \<and> 32768 \<le> un then (32767, Some ErrRange)
                else if neg \<and> 32768 < un then (- 32768, Some ErrRange)
                else (if neg then - int un else int un, None)))"

text \<open>
  The loop of the \<open>m\<close> case (lines 490 to 497): every parameter is parsed, the error of
  the parse is dropped, and the value goes through the translator. \<open>int16(value)\<close> is
  \<open>word_of_int\<close>.
\<close>

fun foldParameters :: "WORD \<Rightarrow> string list \<Rightarrow> (WORD \<times> error option) outcome" where
  "foldParameters flag [] = Returns (flag, None)"
| "foldParameters flag (e # es) =
     (case getWindowsTextAttributeForAnsiValue flag (word_of_int (fst (ParseInt e))) of
        Panics msg \<Rightarrow> Panics msg
      | Returns (flag', err) \<Rightarrow>
          if err \<noteq> None then Returns (flag', err) else foldParameters flag' es)"

subsection \<open>The output dispatcher\<close>

text \<open>
  \<open>HandleOutputCommand\<close> (lines 471 to 714), one definition for each case of its switch.
  Every definition returns what the function returns, \<open>(n, err)\<close>, or the panic that
  ends it, and the console after its native calls. Two helpers of the package are not
  in this file and are parameters here: \<open>parseAnsiCommand\<close>, which the function calls
  first, and \<open>parseInt16OrDefault\<close>, which returns a number and an error.
\<close>

type_synonym handled = "(nat \<times> error option) outcome \<times> console"

definition case_m :: "ansiCommand \<Rightarrow> string \<Rightarrow> console \<Rightarrow> handled" where
  "case_m parsedCommand command k =
     (case foldParameters 0 (Parameters parsedCommand) of
        Panics msg \<Rightarrow> (Panics msg, k)
      | Returns (flag, err) \<Rightarrow>
          if err \<noteq> None then (Returns (length command, err), k)
          else
            (case setConsoleTextAttribute flag k of
               ((r, err'), k1) \<Rightarrow>
                 if \<not> r then (Returns (length command, err'), k1)
                 else (Returns (length command, None), k1)))"

definition case_H ::
  "(string \<Rightarrow> SHORT \<Rightarrow> SHORT \<times> error option) \<Rightarrow> ansiCommand \<Rightarrow> string \<Rightarrow> console \<Rightarrow> handled" where
  "case_H parseInt16OrDefault parsedCommand command k =
     (case parseInt16OrDefault (getParam parsedCommand 0) 1 of
        (line, err) \<Rightarrow>
          if err \<noteq> None then (Returns (length command, err), k)
          else
            (case parseInt16OrDefault (getParam parsedCommand 1) 1 of
               (column, err') \<Rightarrow>
                 if err' \<noteq> None then (Returns (length command, err'), k)
                 else
                   (case setConsoleCursorPosition False (column - 1) (line - 1) k of
                      ((r, err''), k1) \<Rightarrow>
                        if \<not> r then (Returns (length command, err''), k1)
                        else (Returns (length command, None), k1))))"

text \<open>
  The cases \<open>A\<close>, \<open>B\<close>, \<open>C\<close> and \<open>D\<close> differ in the column and line they pass to the
  relative move: \<open>(0, -1*value)\<close>, \<open>(0, value)\<close>, \<open>(value, 0)\<close> and \<open>(-1*value, 0)\<close>.
\<close>

definition case_relative ::
  "(string \<Rightarrow> SHORT \<Rightarrow> SHORT \<times> error option) \<Rightarrow> (SHORT \<Rightarrow> SHORT \<times> SHORT) \<Rightarrow>
   ansiCommand \<Rightarrow> string \<Rightarrow> console \<Rightarrow> handled" where
  "case_relative parseInt16OrDefault delta parsedCommand command k =
     (case parseInt16OrDefault (getParam parsedCommand 0) 1 of
        (v, err) \<Rightarrow>
          if err \<noteq> None then (Returns (length command, err), k)
          else
            (case setConsoleCursorPosition True (fst (delta v)) (snd (delta v)) k of
               ((r, err'), k1) \<Rightarrow>
                 if \<not> r then (Returns (length command, err'), k1)
                 else (Returns (length command, None), k1)))"

text \<open>
  The inner switches of the cases \<open>J\<close> (lines 585 to 612) and \<open>K\<close> (lines 636 to 664):
  the start and the end of the range to clear and the cursor to set afterwards. A value
  other than 0, 1 and 2 leaves the three coordinates at their zero value.
\<close>

definition rangeJ :: "SHORT \<Rightarrow> CONSOLE_SCREEN_BUFFER_INFO \<Rightarrow> COORD \<times> COORD \<times> COORD" where
  "rangeJ v screenBufferInfo =
     (if v = 0 then
        (CursorPosition screenBufferInfo,
         \<lparr>X = X (MaximumWindowSize screenBufferInfo) - 1,
          Y = Y (MaximumWindowSize screenBufferInfo) - 1\<rparr>,
         CursorPosition screenBufferInfo)
      else if v = 1 then
        (\<lparr>X = 0, Y = 0\<rparr>, CursorPosition screenBufferInfo, CursorPosition screenBufferInfo)
      else if v = 2 then
        (\<lparr>X = 0, Y = 0\<rparr>,
         \<lparr>X = X (MaximumWindowSize screenBufferInfo) - 1,
          Y = Y (MaximumWindowSize screenBufferInfo) - 1\<rparr>,
         \<lparr>X = 0, Y = 0\<rparr>)
      else (\<lparr>X = 0, Y = 0\<rparr>, \<lparr>X = 0, Y = 0\<rparr>, \<lparr>X = 0, Y = 0\<rparr>))"

definition rangeK :: "SHORT \<Rightarrow> CONSOLE_SCREEN_BUFFER_INFO \<Rightarrow> COORD \<times> COORD \<times> COORD" where
  "rangeK v screenBufferInfo =
     (if v = 0 then
        (CursorPosition screenBufferInfo,
         \<lparr>X = X (MaximumWindowSize screenBufferInfo) - 1,
          Y = Y (CursorPosition screenBufferInfo)\<rparr>,
         CursorPosition screenBufferInfo)
      else if v = 1 then
        (\<lparr>X = 0, Y = Y (CursorPosition screenBufferInfo)\<rparr>,
         CursorPosition screenBufferInfo, CursorPosition screenBufferInfo)
      else if v = 2 then
        (\<lparr>X = 0, Y = Y (MaximumWindowSize screenBufferInfo) - 1\<rparr>,
         \<lparr>X = X (MaximumWindowSize screenBufferInfo) - 1,
          Y = Y (MaximumWindowSize screenBufferInfo) - 1\<rparr>,
         \<lparr>X = 0, Y = Y (MaximumWindowSize screenBufferInfo) - 1\<rparr>)
      else (\<lparr>X = 0, Y = 0\<rparr>, \<lparr>X = 0, Y = 0\<rparr>, \<lparr>X = 0, Y = 0\<rparr>))"

text \<open>
  What both erase cases do once the range is known (lines 613 to 621 and 665 to 673):
  clear it with spaces, then set the cursor.
\<close>

definition clearAndSetCursor ::
  "COORD \<times> COORD \<times> COORD \<Rightarrow> COORD \<Rightarrow> string \<Rightarrow> console \<Rightarrow> handled" where
  "clearAndSetCursor rng windowSize command k =
     (case rng of
        (start, end', cursor) \<Rightarrow>
          (case clearDisplayRange 0x20 start end' windowSize k of
             ((r, err), k1) \<Rightarrow>
               if \<not> r then (Returns (length command, err), k1)
               else
                 (case setConsoleCursorPosition False (X cursor) (Y cursor) k1 of
                    ((r', err'), k2) \<Rightarrow>
                      if \<not> r' then (Returns (length command, err'), k2)
                      else (Returns (length command, None), k2))))"

text \<open>
  In both cases a failed \<open>GetConsoleScreenBufferInfo\<close> skips the block under
  \<open>if err == nil\<close> and reaches the last line of the function, \<open>return len(command), nil\<close>.
  The case \<open>J\<close> returns the error of the parse; the case \<open>K\<close> drops it.
\<close>

definition case_J ::
  "(string \<Rightarrow> SHORT \<Rightarrow> SHORT \<times> error option) \<Rightarrow> ansiCommand \<Rightarrow> string \<Rightarrow> console \<Rightarrow> handled" where
  "case_J parseInt16OrDefault parsedCommand command k =
     (case parseInt16OrDefault (getParam parsedCommand 0) 0 of
        (v, err) \<Rightarrow>
          if err \<noteq> None then (Returns (length command, err), k)
          else
            (case GetConsoleScreenBufferInfo k of
               (Inl err', k1) \<Rightarrow> (Returns (length command, None), k1)
             | (Inr screenBufferInfo, k1) \<Rightarrow>
                 clearAndSetCursor (rangeJ v screenBufferInfo)
                   (MaximumWindowSize screenBufferInfo) command k1))"

definition case_K ::
  "(string \<Rightarrow> SHORT \<Rightarrow> SHORT \<times> error option) \<Rightarrow> ansiCommand \<Rightarrow> string \<Rightarrow> console \<Rightarrow> handled" where
  "case_K parseInt16OrDefault parsedCommand command k =
     (case parseInt16OrDefault (getParam parsedCommand 0) 0 of
        (v, err) \<Rightarrow>
          (case GetConsoleScreenBufferInfo k of
             (Inl err', k1) \<Rightarrow> (Returns (length command, None), k1)
           | (Inr screenBufferInfo, k1) \<Rightarrow>
               clearAndSetCursor (rangeK v screenBufferInfo)
                 (MaximumWindowSize screenBufferInfo) command k1))"

text \<open>The cases \<open>l\<close> and \<open>h\<close> call \<open>SetCursorVisible\<close> and drop both of its results.\<close>

definition case_visible :: "BOOL \<Rightarrow> ansiCommand \<Rightarrow> string \<Rightarrow> console \<Rightarrow> handled" where
  "case_visible isVisible parsedCommand command k =
     (if getParam parsedCommand 0 = ''?25''
      then (Returns (length command, None), snd (SetCursorVisible isVisible k))
      else (Returns (length command, None), k))"

definition HandleOutputCommand ::
  "(string \<Rightarrow> ansiCommand) \<Rightarrow> (string \<Rightarrow> SHORT \<Rightarrow> SHORT \<times> error option) \<Rightarrow>
   string \<Rightarrow> console \<Rightarrow> handled" where
  "HandleOutputCommand parseAnsiCommand parseInt16OrDefault command k =
     (let parsedCommand = parseAnsiCommand command
      in if Command parsedCommand = ''m'' then case_m parsedCommand command k
         else if Command parsedCommand = ''H'' \<or> Command parsedCommand = ''f'' then
           case_H parseInt16OrDefault parsedCommand command k
         else if Command parsedCommand = ''A'' then
           case_relative parseInt16OrDefault (\<lambda>v. (0, - 1 * v)) parsedCommand command k
         else if Command parsedCommand = ''B'' then
           case_relative parseInt16OrDefault (\<lambda>v. (0, v)) parsedCommand command k
         else if Command parsedCommand = ''C'' then
           case_relative parseInt16OrDefault (\<lambda>v. (v, 0)) parsedCommand command k
         else if Command parsedCommand = ''D'' then
           case_relative parseInt16OrDefault (\<lambda>v. (- 1 * v, 0)) parsedCommand command k
         else if Command parsedCommand = ''J'' then
           case_J parseInt16OrDefault parsedCommand command k
         else if Command parsedCommand = ''K'' then
           case_K parseInt16OrDefault parsedCommand command k
         else if Command parsedCommand = ''l'' then case_visible 0 parsedCommand command k
         else if Command parsedCommand = ''h'' then case_visible 1 parsedCommand command k
         else (Returns (length command, None), k))"

subsection \<open>The key event encoder\<close>

text \<open>The virtual key codes (lines 91 to 119) and the control key states (lines 720 to 741).\<close>

abbreviation (input) VK_END :: WORD where "VK_END \<equiv> 0x23"
abbreviation (input) VK_HOME :: WORD where "VK_HOME \<equiv> 0x24"
abbreviation (input) VK_LEFT :: WORD where "VK_LEFT \<equiv> 0x25"
abbreviation (input) VK_UP :: WORD where "VK_UP \<equiv> 0x26"
abbreviation (input) VK_RIGHT :: WORD where "VK_RIGHT \<equiv> 0x27"
abbreviation (input) VK_DOWN :: WORD where "VK_DOWN \<equiv> 0x28"
abbreviation (input) VK_INSERT :: WORD where "VK_INSERT \<equiv> 0x2D"
abbreviation (input) VK_DELETE :: WORD where "VK_DELETE \<equiv> 0x2E"
abbreviation (input) VK_F1 :: WORD where "VK_F1 \<equiv> 0x70"
abbreviation (input) VK_F2 :: WORD where "VK_F2 \<equiv> 0x71"
abbreviation (input) VK_F3 :: WORD where "VK_F3 \<equiv> 0x72"
abbreviation (input) VK_F4 :: WORD where "VK_F4 \<equiv> 0x73"
abbreviation (input) VK_F5 :: WORD where "VK_F5 \<equiv> 0x74"
abbreviation (input) VK_F6 :: WORD where "VK_F6 \<equiv> 0x75"
abbreviation (input) VK_F7 :: WORD where "VK_F7 \<equiv> 0x76"
abbreviation (input) VK_F8 :: WORD where "VK_F8 \<equiv> 0x77"
abbreviation (input) VK_F9 :: WORD where "VK_F9 \<equiv> 0x78"
abbreviation (input) VK_F10 :: WORD where "VK_F10 \<equiv> 0x79"
abbreviation (input) VK_F11 :: WORD where "VK_F11 \<equiv> 0x7A"
abbreviation (input) VK_F12 :: WORD where "VK_F12 \<equiv> 0x7B"

abbreviation (input) LEFT_ALT_PRESSED :: DWORD where "LEFT_ALT_PRESSED \<equiv> 0x0002"
abbreviation (input) LEFT_CTRL_PRESSED :: DWORD where "LEFT_CTRL_PRESSED \<equiv> 0x0008"
abbreviation (input) RIGHT_ALT_PRESSED :: DWORD where "RIGHT_ALT_PRESSED \<equiv> 0x0001"
abbreviation (input) RIGHT_CTRL_PRESSED :: DWORD where "RIGHT_CTRL_PRESSED \<equiv> 0x0004"
abbreviation (input) SHIFT_PRESSED :: DWORD where "SHIFT_PRESSED \<equiv> 0x0010"

abbreviation (input) KEY_CONTROL_PARAM_2 :: string where "KEY_CONTROL_PARAM_2 \<equiv> '';2''"
abbreviation (input) KEY_CONTROL_PARAM_3 :: string where "KEY_CONTROL_PARAM_3 \<equiv> '';3''"
abbreviation (input) KEY_CONTROL_PARAM_4 :: string where "KEY_CONTROL_PARAM_4 \<equiv> '';4''"
abbreviation (input) KEY_CONTROL_PARAM_5 :: string where "KEY_CONTROL_PARAM_5 \<equiv> '';5''"
abbreviation (input) KEY_CONTROL_PARAM_6 :: string where "KEY_CONTROL_PARAM_6 \<equiv> '';6''"
abbreviation (input) KEY_CONTROL_PARAM_7 :: string where "KEY_CONTROL_PARAM_7 \<equiv> '';7''"
abbreviation (input) KEY_CONTROL_PARAM_8 :: string where "KEY_CONTROL_PARAM_8 \<equiv> '';8''"

text \<open>The escape character, \<open>\x1B\<close> in the Go string literals.\<close>

abbreviation (input) ESC :: char where "ESC \<equiv> CHR 0x1B"

abbreviation (input) KEY_ESC_N :: string where "KEY_ESC_N \<equiv> [ESC, CHR ''N'']"

text \<open>The map \<open>keyMapPrefix\<close> (lines 743 to 764), in the order of the source.\<close>

definition keyMapPrefix :: "WORD \<rightharpoonup> string" where
  "keyMapPrefix =
     map_of
       [(VK_UP, ESC # ''[%sA''),
        (VK_DOWN, ESC # ''[%sB''),
        (VK_RIGHT, ESC # ''[%sC''),
        (VK_LEFT, ESC # ''[%sD''),
        (VK_HOME, ESC # ''[H%s~''),
        (VK_END, ESC # ''[F%s~''),
        (VK_INSERT, ESC # ''[2%s~''),
        (VK_DELETE, ESC # ''[3%s~''),
        (VK_F1, []),
        (VK_F2, []),
        (VK_F3, ESC # ''[13%s~''),
        (VK_F4, ESC # ''[14%s~''),
        (VK_F5, ESC # ''[15%s~''),
        (VK_F6, ESC # ''[17%s~''),
        (VK_F7, ESC # ''[18%s~''),
        (VK_F8, ESC # ''[19%s~''),
        (VK_F9, ESC # ''[20%s~''),
        (VK_F10, ESC # ''[21%s~''),
        (VK_F11, ESC # ''[23%s~''),
        (VK_F12, ESC # ''[24%s~'')]"

text \<open>
  \<open>fmt.Sprintf\<close> of Go's standard library on string operands, for formats whose only
  verb is \<open>%s\<close>, as all formats of \<open>keyMapPrefix\<close> are: a verb takes the next operand, a
  verb without an operand prints \<open>%!s(MISSING)\<close>, and operands that no verb took are
  listed at the end as \<open>%!(EXTRA string=...)\<close>.
\<close>

fun extraOperands :: "string list \<Rightarrow> string" where
  "extraOperands [] = []"
| "extraOperands [a] = ''string='' @ a"
| "extraOperands (a # b # as) = ''string='' @ a @ '', '' @ extraOperands (b # as)"

fun Sprintf :: "string \<Rightarrow> string list \<Rightarrow> string" where
  "Sprintf [] [] = []"
| "Sprintf [] (a # as) = ''%!(EXTRA '' @ extraOperands (a # as) @ '')''"
| "Sprintf [c] operands = c # Sprintf [] operands"
| "Sprintf (c # d # format) operands =
     (if c = CHR ''%'' \<and> d = CHR ''s'' then
        (case operands of
           [] \<Rightarrow> ''%!s(MISSING)'' @ Sprintf format []
         | a # as \<Rightarrow> a @ Sprintf format as)
      else c # Sprintf (d # format) operands)"

text \<open>\<open>getControlStateParameter\<close> (lines 766 to 789) and \<open>getControlKeys\<close> (lines 791 to 796).\<close>

definition getControlStateParameter :: "bool \<Rightarrow> bool \<Rightarrow> bool \<Rightarrow> bool \<Rightarrow> string" where
  "getControlStateParameter shift alt control meta =
     (if shift \<and> alt \<and> control then KEY_CONTROL_PARAM_8
      else if alt \<and> control then KEY_CONTROL_PARAM_7
      else if shift \<and> control then KEY_CONTROL_PARAM_6
      else if control then KEY_CONTROL_PARAM_5
      else if shift \<and> alt then KEY_CONTROL_PARAM_4
      else if alt then KEY_CONTROL_PARAM_3
      else if shift then KEY_CONTROL_PARAM_2
      else [])"

definition getControlKeys :: "DWORD \<Rightarrow> bool \<times> bool \<times> bool" where
  "getControlKeys controlState =
     (0 \<noteq> (controlState AND SHIFT_PRESSED),
      0 \<noteq> (controlState AND (LEFT_ALT_PRESSED OR RIGHT_ALT_PRESSED)),
      0 \<noteq> (controlState AND (LEFT_CTRL_PRESSED OR RIGHT_CTRL_PRESSED)))"

text \<open>\<open>charSequenceForKeys\<close> (lines 798 to 807).\<close>

definition charSequenceForKeys :: "WORD \<Rightarrow> DWORD \<Rightarrow> string" where
  "charSequenceForKeys key controlState =
     (case keyMapPrefix key of
        Some i \<Rightarrow>
          (case getControlKeys controlState of
             (shift, alt, control) \<Rightarrow>
               Sprintf i [getControlStateParameter shift alt control False])
      | None \<Rightarrow> [])"

text \<open>
  \<open>mapKeystokeToTerminalString\<close> (lines 809 to 829). Its result is read by \<open>ReadChars\<close>
  with \<open>range\<close>, one code point at a time, so the model gives the string as the list of
  its code points. The escape sequences are ASCII, one code point for each byte.
  \<open>string(keyEvent.UnicodeChar)\<close> is the one code point of the character, or U+FFFD for
  a surrogate half, which has no UTF-8 encoding. \<open>strings.ToLower\<close> maps code point by
  code point; its mapping is the parameter \<open>toLower\<close>.
\<close>

type_synonym rune = nat

definition runeString :: "WCHAR \<Rightarrow> rune list" where
  "runeString c = (if 0xD800 \<le> unat c \<and> unat c \<le> 0xDFFF then [0xFFFD] else [unat c])"

definition mapKeystokeToTerminalString :: "(rune \<Rightarrow> rune) \<Rightarrow> KEY_EVENT_RECORD \<Rightarrow> rune list" where
  "mapKeystokeToTerminalString toLower keyEvent =
     (case getControlKeys (ControlKeyState keyEvent) of
        (shift, alt, control) \<Rightarrow>
          if UnicodeChar keyEvent = 0 then
            map of_char (charSequenceForKeys (VirtualKeyCode keyEvent) (ControlKeyState keyEvent))
          else if \<not> control \<and> alt then
            map of_char KEY_ESC_N @ map toLower (runeString (UnicodeChar keyEvent))
          else runeString (UnicodeChar keyEvent))"

text \<open>
  The inner loop of \<open>ReadChars\<close> (lines 860 to 863): \<open>p[charIndex] = byte(e)\<close> for every
  code point. Go checks the index; at an index that is not below \<open>len(p)\<close> the assignment
  panics. The loop does nothing on an empty string, so the test \<open>len(keyString) > 0\<close>
  around it changes nothing.
\<close>

fun writeKeyString :: "rune list \<Rightarrow> byte list \<Rightarrow> nat \<Rightarrow> (byte list \<times> nat) outcome" where
  "writeKeyString [] p charIndex = Returns (p, charIndex)"
| "writeKeyString (e # es) p charIndex =
     (if charIndex < length p then writeKeyString es (p[charIndex := of_nat e]) (charIndex + 1)
      else Panics ''index out of range'')"

text \<open>
  The outer loop (lines 855 to 869), \<open>for i := 0; i < nr; i++\<close>: the first number counts
  the iterations left, \<open>nr - i\<close>. The constant \<open>KEY_EVENT\<close> is declared in another file of
  the package and is a parameter.
\<close>

fun processKeystrokes ::
  "WORD \<Rightarrow> (rune \<Rightarrow> rune) \<Rightarrow> INPUT_RECORD list \<Rightarrow> nat \<Rightarrow> nat \<Rightarrow> byte list \<Rightarrow> nat \<Rightarrow>
   (byte list \<times> nat) outcome" where
  "processKeystrokes KEY_EVENT toLower inputBuffer 0 i p charIndex = Returns (p, charIndex)"
| "processKeystrokes KEY_EVENT toLower inputBuffer (Suc n) i p charIndex =
     (if length inputBuffer \<le> i then Panics ''index out of range''
      else
        (case (if EventType (inputBuffer ! i) = KEY_EVENT \<and> KeyDown (KeyEvent (inputBuffer ! i)) = 1
               then writeKeyString
                      (mapKeystokeToTerminalString toLower (KeyEvent (inputBuffer ! i))) p charIndex
               else Returns (p, charIndex)) of
           Panics msg \<Rightarrow> Panics msg
         | Returns (p', charIndex') \<Rightarrow>
             if length p' \<le> charIndex' \<and> 0 < charIndex' then Returns (p', charIndex')
             else processKeystrokes KEY_EVENT toLower inputBuffer n (i + 1) p' charIndex'))"

text \<open>
  The two native calls of \<open>ReadChars\<close> (lines 367 to 386) are made once each, in a fixed
  order. A \<open>keyboard\<close> holds what the operating system answers to them: the pair
  \<open>(r, err)\<close> of each call, the numbers it writes, and the records it writes into the
  buffer. The buffer is made with \<open>int(nEvents)+1\<close> zero records.
\<close>

record keyboard =
  eventsStatus :: "nat \<times> error option"
  eventsNumber :: WORD
  readStatus :: "nat \<times> error option"
  readNumber :: WORD
  readRecords :: "INPUT_RECORD list"

definition zeroRecord :: INPUT_RECORD where
  "zeroRecord =
     \<lparr>EventType = 0,
      KeyEvent = \<lparr>KeyDown = 0, RepeatCount = 0, VirtualKeyCode = 0, VirtualScanCode = 0,
                  UnicodeChar = 0, ControlKeyState = 0\<rparr>\<rparr>"

definition getNumberOfConsoleInputEvents :: "keyboard \<Rightarrow> WORD \<times> error option" where
  "getNumberOfConsoleInputEvents kb =
     (case eventsStatus kb of (r, err) \<Rightarrow> if r \<noteq> 0 then (eventsNumber kb, None) else (0, err))"

definition readConsoleInputKey ::
  "keyboard \<Rightarrow> nat \<Rightarrow> (nat \<times> error option) \<times> INPUT_RECORD list" where
  "readConsoleInputKey kb len =
     (case readStatus kb of
        (r, err) \<Rightarrow>
          if r \<noteq> 0 then
            ((unat (readNumber kb), None), take len (readRecords kb @ replicate len zeroRecord))
          else ((0, err), replicate len zeroRecord))"

text \<open>
  \<open>ReadChars\<close> (lines 831 to 871) returns \<open>(n, err)\<close> and leaves its bytes in \<open>p\<close>.
  Its first test, \<open>nil != err\<close> on the result that is still nil, never holds and is
  left out.
\<close>

definition ReadChars ::
  "WORD \<Rightarrow> (rune \<Rightarrow> rune) \<Rightarrow> keyboard \<Rightarrow> byte list \<Rightarrow>
   ((nat \<times> error option) \<times> byte list) outcome" where
  "ReadChars KEY_EVENT toLower kb p =
     (case getNumberOfConsoleInputEvents kb of
        (nEvents, err) \<Rightarrow>
          if err \<noteq> None then Returns ((0, err), p)
          else if nEvents = 0 then Returns ((0, None), p)
          else
            (case readConsoleInputKey kb (unat nEvents + 1) of
               ((nr, err'), inputBuffer) \<Rightarrow>
                 if err' \<noteq> None then Returns ((0, err'), p)
                 else if nr = 0 then Returns ((0, None), p)
                 else
                   (case processKeystrokes KEY_EVENT toLower inputBuffer nr 0 p 0 of
                      Panics msg \<Rightarrow> Panics msg
                    | Returns (p', charIndex) \<Rightarrow> Returns ((charIndex, None), p'))))"

subsection \<open>The helpers of the package that are not in this file\<close>

text \<open>
  Modelled from the spec: the function \<open>parseInt16OrDefault\<close> is not in this file. The
  spec: an absent parameter takes the default, "never an error"; a numeric parameter
  that fails to parse "uses its documented default", and the dispatcher "propagates the
  parse error upward" for the cursor moves.
\<close>

definition parseInt16OrDefault :: "string \<Rightarrow> SHORT \<Rightarrow> SHORT \<times> error option" where
  "parseInt16OrDefault s defaultValue =
     (if s = [] then (defaultValue, None)
      else
        (case ParseInt s of
           (v, None) \<Rightarrow> (word_of_int v, None)
         | (v, Some e) \<Rightarrow> (defaultValue, Some e)))"

text \<open>
  Modelled from the spec: the function \<open>parseAnsiCommand\<close> is not in this file. The
  spec: the bytes of one command, the parameters "separated by \<open>;\<close>" and then the final
  byte, give the command letter and the parameters in their order; "parameters may be
  empty"; the bytes \<open>1;37m\<close> give the command \<open>m\<close> and the parameters \<open>1\<close> and \<open>37\<close>.
\<close>

fun splitParameters :: "string \<Rightarrow> string list" where
  "splitParameters [] = [[]]"
| "splitParameters (c # cs) =
     (if c = CHR '';'' then [] # splitParameters cs
      else (case splitParameters cs of
              [] \<Rightarrow> [[c]]
            | e # es \<Rightarrow> (c # e) # es))"

definition parseAnsiCommand :: "string \<Rightarrow> ansiCommand" where
  "parseAnsiCommand command =
     (if command = [] then \<lparr>Command = [], Parameters = []\<rparr>
      else \<lparr>Command = [last command],
            Parameters = (if butlast command = [] then [] else splitParameters (butlast command))\<rparr>)"

subsection \<open>Consoles to run the dispatcher on\<close>

text \<open>
  A console on which no call has been issued yet, which answers every call with the
  same pair \<open>(r, err)\<close> and every query with the same buffer information.
\<close>

definition answering :: "nat \<times> error option \<Rightarrow> CONSOLE_SCREEN_BUFFER_INFO \<Rightarrow> console" where
  "answering answer info =
     \<lparr>issued = [], status = (\<lambda>before c. answer), bufferInfo = (\<lambda>before. info),
      cursorInfo = (\<lambda>before. \<lparr>CursorSize = 25, Visible = 1\<rparr>)\<rparr>"

text \<open>
  A buffer of 120 columns and 300 lines with a window of at most 80 columns and 25
  lines, the cursor in column 10 of line 3.
\<close>

definition window80x25 :: CONSOLE_SCREEN_BUFFER_INFO where
  "window80x25 =
     \<lparr>Size = \<lparr>X = 120, Y = 300\<rparr>, CursorPosition = \<lparr>X = 10, Y = 3\<rparr>, Attributes = 7,
      Window = \<lparr>Left = 0, Top = 0, Right = 79, Bottom = 24\<rparr>,
      MaximumWindowSize = \<lparr>X = 80, Y = 25\<rparr>\<rparr>"

text \<open>
  A maximum window of 300 columns and 300 lines, as large as its buffer, with the
  cursor in column 0 of line 202.
\<close>

definition window300x300 :: CONSOLE_SCREEN_BUFFER_INFO where
  "window300x300 =
     \<lparr>Size = \<lparr>X = 300, Y = 300\<rparr>, CursorPosition = \<lparr>X = 0, Y = 202\<rparr>, Attributes = 7,
      Window = \<lparr>Left = 0, Top = 0, Right = 299, Bottom = 299\<rparr>,
      MaximumWindowSize = \<lparr>X = 300, Y = 300\<rparr>\<rparr>"

text \<open>A key-down record of the up arrow with the given control key state.\<close>

definition upArrowDown :: "WORD \<Rightarrow> DWORD \<Rightarrow> INPUT_RECORD" where
  "upArrowDown KEY_EVENT controlState =
     \<lparr>EventType = KEY_EVENT,
      KeyEvent = \<lparr>KeyDown = 1, RepeatCount = 1, VirtualKeyCode = VK_UP, VirtualScanCode = 0x48,
                  UnicodeChar = 0, ControlKeyState = controlState\<rparr>\<rparr>"

subsection \<open>The values the translator accepts\<close>

text \<open>The values of the cases of the translator's switch, in the order of the source.\<close>

definition switchCases :: "SHORT list" where
  "switchCases =
     [ANSI_ATTR_RESET, ANSI_ATTR_INVISIBLE, ANSI_ATTR_UNDERLINE, ANSI_ATTR_BLINK,
      ANSI_ATTR_UNDERLINE_OFF, ANSI_ATTR_BLINK_OFF, ANSI_ATTR_BOLD, ANSI_ATTR_DIM,
      ANSI_ATTR_REVERSE, ANSI_ATTR_REVERSE_OFF,
      ANSI_FOREGROUND_DEFAULT, ANSI_FOREGROUND_BLACK, ANSI_FOREGROUND_RED,
      ANSI_FOREGROUND_GREEN, ANSI_FOREGROUND_YELLOW, ANSI_FOREGROUND_BLUE,
      ANSI_FOREGROUND_MAGENTA, ANSI_FOREGROUND_CYAN, ANSI_FOREGROUND_WHITE,
      ANSI_BACKGROUND_DEFAULT, ANSI_BACKGROUND_BLACK, ANSI_BACKGROUND_RED,
      ANSI_BACKGROUND_GREEN, ANSI_BACKGROUND_YELLOW, ANSI_BACKGROUND_BLUE,
      ANSI_BACKGROUND_MAGENTA, ANSI_BACKGROUND_CYAN, ANSI_BACKGROUND_WHITE]"

text \<open>The number the \<open>m\<close> case passes to the translator for a parameter.\<close>

definition ansiValueOf :: "string \<Rightarrow> SHORT" where
  "ansiValueOf e = word_of_int (fst (ParseInt e))"

section \<open>Properties\<close>

subsection \<open>Signed 16-bit arithmetic\<close>

lemma sint_range_16: "- 32768 \<le> sint (w :: 16 word) \<and> sint w \<le> 32767"
  using sint_ge [of w] sint_lt [of w] by simp

lemma uint_scast_16_32: "uint (scast (w :: 16 word) :: 32 word) = sint w mod 2 ^ 32"
proof -
  have "uint (word_of_int (sint w) :: 32 word) = sint w mod 2 ^ LENGTH(32)"
    by (rule uint_word_of_int)
  then show ?thesis by (simp only: scast_eq [symmetric]) simp
qed

lemma uint_scast_nonneg: "0 \<le> sint (w :: 16 word) \<Longrightarrow> uint (scast w :: 32 word) = sint w"
  using sint_range_16 [of w] by (simp add: uint_scast_16_32)

lemma uint_scast_neg:
  "sint (w :: 16 word) < 0 \<Longrightarrow> uint (scast w :: 32 word) = 2 ^ 32 + sint w"
proof -
  assume neg: "sint w < 0"
  have "sint w mod 2 ^ 32 = (sint w + 2 ^ 32) mod 2 ^ 32" by simp
  also have "\<dots> = sint w + 2 ^ 32"
    using neg sint_range_16 [of w] by (intro mod_pos_pos_trivial) simp_all
  finally show ?thesis by (simp add: uint_scast_16_32)
qed

lemma sint_sub_16:
  "- 32768 \<le> sint a - sint b \<Longrightarrow> sint a - sint b \<le> 32767 \<Longrightarrow>
   sint (a - b :: 16 word) = sint a - sint b"
  by (simp add: sint_word_ariths signed_take_bit_int_eq_self)

lemma uint_add_32:
  "uint a + uint b < 2 ^ 32 \<Longrightarrow> uint (a + b :: 32 word) = uint a + uint b"
  using uint_add_lem [of a b] by simp

subsection \<open>The clear range\<close>

lemma getNumberOfChars_same_row:
  assumes "0 \<le> sint fx" "0 \<le> sint y" "0 \<le> sint tx"
    and "sint fx < sint w" "sint tx < sint w" "sint y < sint h"
  shows "getNumberOfChars \<lparr>X = fx, Y = y\<rparr> \<lparr>X = tx, Y = y\<rparr> \<lparr>X = w, Y = h\<rparr>
         = scast (tx - fx) + 1"
  using assms by (simp add: getNumberOfChars_def word_sless_alt word_sle_eq)

lemma getNumberOfChars_forwards:
  assumes "0 \<le> sint fx" "0 \<le> sint y" "0 \<le> sint tx"
    and "sint fx < sint w" "sint tx < sint w" "sint y < sint h"
    and "sint fx \<le> sint tx"
  shows "uint (getNumberOfChars \<lparr>X = fx, Y = y\<rparr> \<lparr>X = tx, Y = y\<rparr> \<lparr>X = w, Y = h\<rparr>)
         = sint tx - sint fx + 1"
proof -
  have d: "sint (tx - fx) = sint tx - sint fx"
    using assms sint_range_16 [of tx] sint_range_16 [of fx] by (intro sint_sub_16) simp_all
  then have u: "uint (scast (tx - fx) :: 32 word) = sint tx - sint fx"
    using assms by (simp add: uint_scast_nonneg)
  have "uint (scast (tx - fx) + 1 :: 32 word) = uint (scast (tx - fx) :: 32 word) + uint (1 :: 32 word)"
    using u sint_range_16 [of tx] assms by (intro uint_add_32) simp
  with u show ?thesis using assms by (simp add: getNumberOfChars_same_row)
qed

lemma getNumberOfChars_backwards:
  assumes "0 \<le> sint fx" "0 \<le> sint y" "0 \<le> sint tx"
    and "sint fx < sint w" "sint tx < sint w" "sint y < sint h"
    and "sint tx < sint fx"
  shows "uint (getNumberOfChars \<lparr>X = fx, Y = y\<rparr> \<lparr>X = tx, Y = y\<rparr> \<lparr>X = w, Y = h\<rparr>)
         = (2 ^ 32 - (sint fx - sint tx) + 1) mod 2 ^ 32"
proof -
  have d: "sint (tx - fx) = sint tx - sint fx"
    using assms sint_range_16 [of tx] sint_range_16 [of fx] by (intro sint_sub_16) simp_all
  then have u: "uint (scast (tx - fx) :: 32 word) = 2 ^ 32 + (sint tx - sint fx)"
    using assms by (simp add: uint_scast_neg)
  have "uint (scast (tx - fx) + 1 :: 32 word) = (uint (scast (tx - fx) :: 32 word) + 1) mod 2 ^ 32"
    by (simp add: uint_word_ariths)
  also have "\<dots> = (2 ^ 32 + (sint tx - sint fx) + 1) mod 2 ^ 32"
    by (simp only: u)
  also have "2 ^ 32 + (sint tx - sint fx) + 1 = 2 ^ 32 - (sint fx - sint tx) + 1"
    by simp
  finally show ?thesis using assms by (simp only: getNumberOfChars_same_row)
qed

lemma clearDisplayRange_nothing:
  "getNumberOfChars fromCoord toCoord windowSize = 0 \<Longrightarrow>
   clearDisplayRange fillChar fromCoord toCoord windowSize k = ((True, None), k)"
  by (simp add: clearDisplayRange_def)

lemma fillConsoleOutputCharacter_console:
  "snd (fillConsoleOutputCharacter fillChar len writeCord k)
   = k\<lparr>issued := issued k @ [fillConsoleOutputCharacterProc fillChar len (marshal writeCord)]\<rparr>"
  by (auto simp add: fillConsoleOutputCharacter_def Call_def split: prod.splits)

lemma clearDisplayRange_console:
  "getNumberOfChars fromCoord toCoord windowSize \<noteq> 0 \<Longrightarrow>
   snd (clearDisplayRange fillChar fromCoord toCoord windowSize k)
   = k\<lparr>issued := issued k @ [fillConsoleOutputCharacterProc fillChar
                   (getNumberOfChars fromCoord toCoord windowSize) (marshal fromCoord)]\<rparr>"
  using fillConsoleOutputCharacter_console
    [of fillChar "getNumberOfChars fromCoord toCoord windowSize" fromCoord k]
  by (auto simp add: clearDisplayRange_def Let_def word_greater_zero_iff split: prod.splits)

lemma clearDisplayRange_issued:
  "getNumberOfChars fromCoord toCoord windowSize \<noteq> 0 \<Longrightarrow>
   issued (snd (clearDisplayRange fillChar fromCoord toCoord windowSize k))
   = issued k @ [fillConsoleOutputCharacterProc fillChar
                   (getNumberOfChars fromCoord toCoord windowSize) (marshal fromCoord)]"
  by (simp add: clearDisplayRange_console)

text \<open>
  C3. The product \<open>linesBetween * screenSize.X\<close> of line 315 is computed in \<open>int16\<close>
  and converted to \<open>uint32\<close> afterwards, where the other terms of the sum are converted
  first. With a width of 300, from (0, 0) and to (0, 202), coordinates inside a buffer
  of 300 lines, the product \<open>201 * 300\<close> leaves \<open>int16\<close>, and the function returns
  4294962361 and not \<open>(300 - 0) + 0 + 1 + 300 * 201 = 60601\<close>. The command \<open>1J\<close> with
  the cursor at (0, 202) on a maximum window of 300 columns and 300 lines reaches the
  function with these coordinates and passes this count to the native fill call.
\<close>

theorem getNumberOfChars_product_wraps:
  "uint (getNumberOfChars \<lparr>X = 0, Y = 0\<rparr> \<lparr>X = 0, Y = 202\<rparr> \<lparr>X = 300, Y = 300\<rparr>)
     = 4294962361
   \<and> (300 - 0) + 0 + 1 + 300 * 201 = (60601 :: int)
   \<and> HandleOutputCommand parseAnsiCommand parseInt16OrDefault ''1J''
       (answering (1, None) window300x300)
     = (Returns (length ''1J'', None),
        (answering (1, None) window300x300)
          \<lparr>issued := [getConsoleScreenBufferInfoProc,
                      fillConsoleOutputCharacterProc 0x20 4294962361 (marshal \<lparr>X = 0, Y = 0\<rparr>),
                      getConsoleScreenBufferInfoProc,
                      setConsoleCursorPositionProc (marshal \<lparr>X = 0, Y = 202\<rparr>)]\<rparr>)"
proof -
  have n: "getNumberOfChars \<lparr>X = 0, Y = 0\<rparr> \<lparr>X = 0, Y = 202\<rparr> \<lparr>X = 300, Y = 300\<rparr>
           = 4294962361"
    by (simp add: getNumberOfChars_def word_sless_alt word_sle_eq)
  have p: "parseAnsiCommand ''1J'' = \<lparr>Command = ''J'', Parameters = [''1'']\<rparr>"
    by (simp add: parseAnsiCommand_def)
  have v: "parseInt16OrDefault ''1'' 0 = (1, None)"
    by (simp add: parseInt16OrDefault_def ParseInt_def ParseUint_def)
  have j: "HandleOutputCommand parseAnsiCommand parseInt16OrDefault ''1J''
       (answering (1, None) window300x300)
     = (Returns (length ''1J'', None),
        (answering (1, None) window300x300)
          \<lparr>issued := [getConsoleScreenBufferInfoProc,
                      fillConsoleOutputCharacterProc 0x20 4294962361 (marshal \<lparr>X = 0, Y = 0\<rparr>),
                      getConsoleScreenBufferInfoProc,
                      setConsoleCursorPositionProc (marshal \<lparr>X = 0, Y = 202\<rparr>)]\<rparr>)"
    by (simp add: HandleOutputCommand_def p v getParam_def case_J_def rangeJ_def
          clearAndSetCursor_def clearDisplayRange_def fillConsoleOutputCharacter_def
          setConsoleCursorPosition_def GetConsoleScreenBufferInfo_def Call_def n
          answering_def window300x300_def)
  from n j show ?thesis by simp
qed

text \<open>
  C10, as amended. For coordinates inside the buffer on the same row with
  \<open>from.column - to.column \<ge> 2\<close>, \<open>getNumberOfChars\<close> does not return 0: it returns
  \<open>2^32 - (from.column - to.column) + 1\<close>, and \<open>clearDisplayRange\<close> passes this count
  to the native fill call. For \<open>from.column - to.column = 1\<close> the sum wraps to 0, and
  \<open>clearDisplayRange\<close> makes no native call.
\<close>

theorem getNumberOfChars_backwards_wraps:
  "(0 \<le> sint fx \<and> 0 \<le> sint y \<and> 0 \<le> sint tx
      \<and> sint fx < sint w \<and> sint tx < sint w \<and> sint y < sint h \<and> sint tx + 2 \<le> sint fx
    \<longrightarrow> uint (getNumberOfChars \<lparr>X = fx, Y = y\<rparr> \<lparr>X = tx, Y = y\<rparr> \<lparr>X = w, Y = h\<rparr>)
          = 2 ^ 32 - (sint fx - sint tx) + 1
        \<and> getNumberOfChars \<lparr>X = fx, Y = y\<rparr> \<lparr>X = tx, Y = y\<rparr> \<lparr>X = w, Y = h\<rparr> \<noteq> 0
        \<and> issued (snd (clearDisplayRange fillChar \<lparr>X = fx, Y = y\<rparr> \<lparr>X = tx, Y = y\<rparr>
                          \<lparr>X = w, Y = h\<rparr> k))
          = issued k @ [fillConsoleOutputCharacterProc fillChar
                          (getNumberOfChars \<lparr>X = fx, Y = y\<rparr> \<lparr>X = tx, Y = y\<rparr> \<lparr>X = w, Y = h\<rparr>)
                          (marshal \<lparr>X = fx, Y = y\<rparr>)])
   \<and> (0 \<le> sint fx \<and> 0 \<le> sint y \<and> 0 \<le> sint tx
      \<and> sint fx < sint w \<and> sint tx < sint w \<and> sint y < sint h \<and> sint fx = sint tx + 1
    \<longrightarrow> getNumberOfChars \<lparr>X = fx, Y = y\<rparr> \<lparr>X = tx, Y = y\<rparr> \<lparr>X = w, Y = h\<rparr> = 0
        \<and> clearDisplayRange fillChar \<lparr>X = fx, Y = y\<rparr> \<lparr>X = tx, Y = y\<rparr> \<lparr>X = w, Y = h\<rparr> k
          = ((True, None), k))"
proof (intro conjI impI)
  assume a: "0 \<le> sint fx \<and> 0 \<le> sint y \<and> 0 \<le> sint tx
      \<and> sint fx < sint w \<and> sint tx < sint w \<and> sint y < sint h \<and> sint tx + 2 \<le> sint fx"
  let ?n = "getNumberOfChars \<lparr>X = fx, Y = y\<rparr> \<lparr>X = tx, Y = y\<rparr> \<lparr>X = w, Y = h\<rparr>"
  have r: "sint fx \<le> 32767" using sint_range_16 [of fx] by simp
  have "uint ?n = (2 ^ 32 - (sint fx - sint tx) + 1) mod 2 ^ 32"
    using a by (intro getNumberOfChars_backwards) simp_all
  also have "\<dots> = 2 ^ 32 - (sint fx - sint tx) + 1"
    using a r by (intro mod_pos_pos_trivial) simp_all
  finally show u: "uint ?n = 2 ^ 32 - (sint fx - sint tx) + 1" .
  have "uint ?n \<noteq> 0" using u a r by simp
  then show n0: "?n \<noteq> 0" by auto
  show "issued (snd (clearDisplayRange fillChar \<lparr>X = fx, Y = y\<rparr> \<lparr>X = tx, Y = y\<rparr>
                       \<lparr>X = w, Y = h\<rparr> k))
        = issued k @ [fillConsoleOutputCharacterProc fillChar ?n (marshal \<lparr>X = fx, Y = y\<rparr>)]"
    using n0 by (rule clearDisplayRange_issued)
next
  assume a: "0 \<le> sint fx \<and> 0 \<le> sint y \<and> 0 \<le> sint tx
      \<and> sint fx < sint w \<and> sint tx < sint w \<and> sint y < sint h \<and> sint fx = sint tx + 1"
  let ?n = "getNumberOfChars \<lparr>X = fx, Y = y\<rparr> \<lparr>X = tx, Y = y\<rparr> \<lparr>X = w, Y = h\<rparr>"
  have "uint ?n = (2 ^ 32 - (sint fx - sint tx) + 1) mod 2 ^ 32"
    using a by (intro getNumberOfChars_backwards) simp_all
  then have "uint ?n = 0" using a by simp
  then show n0: "?n = 0" by (simp add: uint_0_iff)
  then show "clearDisplayRange fillChar \<lparr>X = fx, Y = y\<rparr> \<lparr>X = tx, Y = y\<rparr> \<lparr>X = w, Y = h\<rparr> k
             = ((True, None), k)"
    by (rule clearDisplayRange_nothing)
qed

theorem getNumberOfChars_backwards_wraps_witness:
  "uint (getNumberOfChars \<lparr>X = 5, Y = 0\<rparr> \<lparr>X = 2, Y = 0\<rparr> \<lparr>X = 80, Y = 25\<rparr>) = 4294967294
   \<and> issued (snd (clearDisplayRange 0x20 \<lparr>X = 5, Y = 0\<rparr> \<lparr>X = 2, Y = 0\<rparr> \<lparr>X = 80, Y = 25\<rparr>
                     (answering (1, None) window80x25)))
      = [fillConsoleOutputCharacterProc 0x20 4294967294 5]
   \<and> clearDisplayRange 0x20 \<lparr>X = 1, Y = 0\<rparr> \<lparr>X = 0, Y = 0\<rparr> \<lparr>X = 80, Y = 25\<rparr>
        (answering (1, None) window80x25)
      = ((True, None), answering (1, None) window80x25)"
proof -
  have n: "getNumberOfChars \<lparr>X = 5, Y = 0\<rparr> \<lparr>X = 2, Y = 0\<rparr> \<lparr>X = 80, Y = 25\<rparr> = 4294967294"
    by (simp add: getNumberOfChars_def word_sless_alt word_sle_eq)
  show ?thesis
    using getNumberOfChars_backwards_wraps [of 5 0 2 80 25 "0x20" "answering (1, None) window80x25"]
      getNumberOfChars_backwards_wraps [of 1 0 0 80 25 "0x20" "answering (1, None) window80x25"]
    by (simp add: n marshal_def answering_def)
qed

text \<open>
  The claim as stated fails when the columns differ by one: from (1, 0) to (0, 0) the
  function returns 0.
\<close>

theorem getNumberOfChars_backwards_wraps_counterexample:
  "getNumberOfChars \<lparr>X = 1, Y = 0\<rparr> \<lparr>X = 0, Y = 0\<rparr> \<lparr>X = 80, Y = 25\<rparr> = 0"
  by (simp add: getNumberOfChars_def word_sless_alt word_sle_eq)

subsection \<open>The attribute translator\<close>

lemma mask_set_fg: "(0x000F :: 16 word) = mask 4"
  by (simp add: mask_eq_exp_minus_1)

lemma mask_set_bg: "(0x00F0 :: 16 word) = push_bit 4 (mask 4)"
  by (simp add: mask_eq_exp_minus_1 push_bit_eq_mult)

lemma mask_unset_fg: "(0xFFF0 :: 16 word) = NOT (mask 4)"
  by (simp add: mask_eq_exp_minus_1 not_eq_complement)

lemma mask_unset_bg: "(0xFF0F :: 16 word) = NOT (push_bit 4 (mask 4))"
  by (simp add: mask_eq_exp_minus_1 push_bit_eq_mult not_eq_complement)

lemma bit_swapColours:
  "bit (swapColours flag) n
   \<longleftrightarrow> (if n < 4 then bit flag (n + 4) else if n < 8 then bit flag (n - 4) else bit flag n)"
  unfolding swapColours_def mask_set_fg mask_set_bg mask_unset_fg mask_unset_bg
  by (auto simp add: bit_simps add.commute dest: bit_imp_le_length)

lemma swapColours_twice: "swapColours (swapColours flag) = flag"
  by (rule bit_word_eqI) (auto simp add: bit_swapColours)

lemma swapColours_0: "swapColours flag = 0 \<Longrightarrow> flag = 0"
proof -
  assume "swapColours flag = 0"
  then have "swapColours (swapColours flag) = swapColours 0" by simp
  then show ?thesis by (simp add: swapColours_twice) (simp add: swapColours_def)
qed

lemma translate_reverse:
  "getWindowsTextAttributeForAnsiValue flag ANSI_ATTR_REVERSE
   = Returns (swapColours (if flag = 0 then FOREGROUND_MASK_SET else flag), None)"
  by (simp add: getWindowsTextAttributeForAnsiValue_def Let_def swapColours_def)

text \<open>
  C4, as amended. For every 16-bit attribute field other than 0, applying the translator
  twice with the value 7 gives the field back. The field 0 is first widened to 0x000F,
  and two applications give 0x000F.
\<close>

theorem reverse_twice:
  "(case getWindowsTextAttributeForAnsiValue flag ANSI_ATTR_REVERSE of
      Panics msg \<Rightarrow> Panics msg
    | Returns (flag', err) \<Rightarrow> getWindowsTextAttributeForAnsiValue flag' ANSI_ATTR_REVERSE)
   = Returns (if flag = 0 then FOREGROUND_MASK_SET else flag, None)"
proof (cases "flag = 0")
  case True
  then show ?thesis by (simp add: getWindowsTextAttributeForAnsiValue_def)
next
  case False
  then have "swapColours flag \<noteq> 0" using swapColours_0 [of flag] by auto
  with False show ?thesis by (simp add: translate_reverse swapColours_twice)
qed

text \<open>The claim as stated fails at the field 0: reversing twice gives 0x000F.\<close>

theorem reverse_twice_counterexample:
  "getWindowsTextAttributeForAnsiValue 0 ANSI_ATTR_REVERSE = Returns (0x00F0, None)
   \<and> getWindowsTextAttributeForAnsiValue 0x00F0 ANSI_ATTR_REVERSE = Returns (0x000F, None)"
  by (simp add: getWindowsTextAttributeForAnsiValue_def)

text \<open>
  C5. The case of \<open>ANSI_FOREGROUND_BLACK\<close> does not clear the foreground field: it
  toggles the three colour bits. On a blue foreground (the field 1) the value 30 gives 6,
  red and green, where the value 31 on the same field gives 4 by mask and set.
\<close>

theorem foreground_black_toggles:
  "getWindowsTextAttributeForAnsiValue FOREGROUND_BLUE ANSI_FOREGROUND_BLACK
     = Returns (FOREGROUND_RED OR FOREGROUND_GREEN, None)
   \<and> getWindowsTextAttributeForAnsiValue FOREGROUND_BLUE ANSI_FOREGROUND_RED
     = Returns (FOREGROUND_RED, None)"
  by (simp add: getWindowsTextAttributeForAnsiValue_def)

lemma translate_outside:
  "ansiValue \<notin> set switchCases \<Longrightarrow>
   getWindowsTextAttributeForAnsiValue flag ansiValue = Panics ''Should not reach here''"
  by (simp add: getWindowsTextAttributeForAnsiValue_def switchCases_def)

lemma translate_inside:
  "ansiValue \<in> set switchCases \<Longrightarrow>
   \<exists>flag'. getWindowsTextAttributeForAnsiValue flag ansiValue = Returns (flag', None)"
  unfolding switchCases_def set_simps insert_iff empty_iff
  by (elim disjE) (simp_all add: getWindowsTextAttributeForAnsiValue_def Let_def)

lemma foldParameters_inside:
  "\<forall>e \<in> set es. ansiValueOf e \<in> set switchCases \<Longrightarrow>
   \<exists>flag'. foldParameters flag es = Returns (flag', None)"
proof (induction es arbitrary: flag)
  case Nil
  then show ?case by simp
next
  case (Cons e es)
  then obtain flag' where
    "getWindowsTextAttributeForAnsiValue flag (ansiValueOf e) = Returns (flag', None)"
    using translate_inside [of "ansiValueOf e" flag] by auto
  with Cons show ?case by (simp add: ansiValueOf_def)
qed

lemma foldParameters_outside:
  "\<forall>x \<in> set es. ansiValueOf x \<in> set switchCases \<Longrightarrow> ansiValueOf e \<notin> set switchCases \<Longrightarrow>
   foldParameters flag (es @ e # es') = Panics ''Should not reach here''"
proof (induction es arbitrary: flag)
  case Nil
  then show ?case using translate_outside [of "ansiValueOf e" flag] by (simp add: ansiValueOf_def)
next
  case (Cons x es)
  then obtain flag' where
    "getWindowsTextAttributeForAnsiValue flag (ansiValueOf x) = Returns (flag', None)"
    using translate_inside [of "ansiValueOf x" flag] by auto
  with Cons show ?case by (simp add: ansiValueOf_def)
qed

lemma case_m_panics:
  "foldParameters 0 (Parameters parsedCommand) = Panics msg \<Longrightarrow>
   case_m parsedCommand command k = (Panics msg, k)"
  by (simp add: case_m_def)

text \<open>
  C1. The translator has an error result, and the loop of the \<open>m\<close> case tests it, but
  the default case of the switch does not return an error: it panics. At the value 99,
  which is not in the policy table, the translator panics with "Should not reach here",
  and the command \<open>1;99;4m\<close> ends in this panic at its second parameter, before any
  native call; no error is reported to the caller.
\<close>

theorem translator_panics_on_99:
  "getWindowsTextAttributeForAnsiValue 0 99 = Panics ''Should not reach here''
   \<and> HandleOutputCommand parseAnsiCommand parseInt16OrDefault ''1;99;4m''
       (answering (1, None) window80x25)
     = (Panics ''Should not reach here'', answering (1, None) window80x25)"
  by (simp add: HandleOutputCommand_def parseAnsiCommand_def case_m_def ParseInt_def
        ParseUint_def getWindowsTextAttributeForAnsiValue_def)

subsection \<open>The output dispatcher\<close>

lemma case_m_returns:
  "foldParameters 0 (Parameters parsedCommand) = Returns (flag, None) \<Longrightarrow>
   \<exists>err. fst (case_m parsedCommand command k) = Returns (length command, err)"
  by (auto simp add: case_m_def split: prod.splits)

lemma case_H_returns:
  "\<exists>err. fst (case_H pio parsedCommand command k) = Returns (length command, err)"
  by (auto simp add: case_H_def split: prod.splits)

lemma case_relative_returns:
  "\<exists>err. fst (case_relative pio delta parsedCommand command k) = Returns (length command, err)"
  by (auto simp add: case_relative_def split: prod.splits)

lemma clearAndSetCursor_returns:
  "\<exists>err. fst (clearAndSetCursor rng windowSize command k) = Returns (length command, err)"
  by (auto simp add: clearAndSetCursor_def split: prod.splits)

lemma case_J_returns:
  "\<exists>err. fst (case_J pio parsedCommand command k) = Returns (length command, err)"
  using clearAndSetCursor_returns
  by (auto simp add: case_J_def split: prod.splits sum.splits)

lemma case_K_returns:
  "\<exists>err. fst (case_K pio parsedCommand command k) = Returns (length command, err)"
  using clearAndSetCursor_returns
  by (auto simp add: case_K_def split: prod.splits sum.splits)

lemma case_visible_returns:
  "fst (case_visible isVisible parsedCommand command k) = Returns (length command, None)"
  by (simp add: case_visible_def)

lemma other_commands_return:
  "Command (parse command) \<noteq> ''m'' \<Longrightarrow>
   \<exists>err. fst (HandleOutputCommand parse pio command k) = Returns (length command, err)"
  unfolding HandleOutputCommand_def Let_def
  using case_H_returns case_relative_returns case_J_returns case_K_returns
  by (simp add: case_visible_returns)

text \<open>
  An \<open>m\<close> command with a parameter whose value is not a case of the translator's switch
  panics before any native call. Every other command returns, and what it returns as
  the number of bytes is the length of the command.
\<close>

lemma m_command_panics:
  assumes "Command (parse command) = ''m''"
    and "\<exists>e \<in> set (Parameters (parse command)). ansiValueOf e \<notin> set switchCases"
  shows "HandleOutputCommand parse pio command k = (Panics ''Should not reach here'', k)"
proof -
  obtain es e es' where s: "Parameters (parse command) = es @ e # es'"
      "ansiValueOf e \<notin> set switchCases" "\<forall>x \<in> set es. \<not> ansiValueOf x \<notin> set switchCases"
    using assms(2)
      split_list_first_prop [of "Parameters (parse command)" "\<lambda>e. ansiValueOf e \<notin> set switchCases"]
    by auto
  then have "foldParameters 0 (Parameters (parse command)) = Panics ''Should not reach here''"
    using foldParameters_outside [of es e 0 es'] by simp
  then have "case_m (parse command) command k = (Panics ''Should not reach here'', k)"
    by (rule case_m_panics)
  with assms(1) show ?thesis by (simp add: HandleOutputCommand_def)
qed

lemma other_commands_return_length:
  assumes "\<not> (Command (parse command) = ''m''
          \<and> (\<exists>e \<in> set (Parameters (parse command)). ansiValueOf e \<notin> set switchCases))"
  shows "\<exists>err. fst (HandleOutputCommand parse pio command k) = Returns (length command, err)"
proof (cases "Command (parse command) = ''m''")
  case True
  with assms have "\<forall>e \<in> set (Parameters (parse command)). ansiValueOf e \<in> set switchCases"
    by auto
  then obtain flag where "foldParameters 0 (Parameters (parse command)) = Returns (flag, None)"
    using foldParameters_inside [of "Parameters (parse command)" 0] by auto
  then have "\<exists>err. fst (case_m (parse command) command k) = Returns (length command, err)"
    by (rule case_m_returns)
  with True show ?thesis by (simp add: HandleOutputCommand_def)
next
  case False
  then show ?thesis by (rule other_commands_return)
qed

text \<open>
  C7. On the command \<open>99m\<close> the function does not return the length of the command:
  the panic of the translator ends it, and the caller gets no byte count. The same
  holds for the command \<open>65536?m\<close>, whose parameter \<open>strconv.ParseInt\<close> turns into
  32767 with a range error that the loop drops.
\<close>

theorem HandleOutputCommand_panics_on_99m:
  "fst (HandleOutputCommand parseAnsiCommand parseInt16OrDefault ''99m''
          (answering (1, None) window80x25)) = Panics ''Should not reach here''
   \<and> ParseInt ''65536?'' = (32767, Some ErrRange)
   \<and> fst (HandleOutputCommand parseAnsiCommand parseInt16OrDefault ''65536?m''
          (answering (1, None) window80x25)) = Panics ''Should not reach here''"
  by (simp add: HandleOutputCommand_def parseAnsiCommand_def case_m_def ParseInt_def
        ParseUint_def getWindowsTextAttributeForAnsiValue_def)

text \<open>
  C6. On a console whose every native call returns 0 with the error number 6, the
  commands \<open>?25h\<close> and \<open>?25l\<close> issue \<open>GetConsoleCursorInfo\<close>, and the commands \<open>J\<close> and
  \<open>2K\<close> issue \<open>GetConsoleScreenBufferInfo\<close>; the call fails, and \<open>HandleOutputCommand\<close>
  returns a nil error all the same. The command \<open>1m\<close> on the same console returns the
  error of its failed call.
\<close>

theorem failed_calls_swallowed:
  "HandleOutputCommand parseAnsiCommand parseInt16OrDefault ''?25h''
     (answering (0, Some (Errno 6)) window80x25)
     = (Returns (4, None),
        (answering (0, Some (Errno 6)) window80x25)\<lparr>issued := [getConsoleCursorInfoProc]\<rparr>)
   \<and> HandleOutputCommand parseAnsiCommand parseInt16OrDefault ''?25l''
     (answering (0, Some (Errno 6)) window80x25)
     = (Returns (4, None),
        (answering (0, Some (Errno 6)) window80x25)\<lparr>issued := [getConsoleCursorInfoProc]\<rparr>)
   \<and> HandleOutputCommand parseAnsiCommand parseInt16OrDefault ''J''
     (answering (0, Some (Errno 6)) window80x25)
     = (Returns (1, None),
        (answering (0, Some (Errno 6)) window80x25)\<lparr>issued := [getConsoleScreenBufferInfoProc]\<rparr>)
   \<and> HandleOutputCommand parseAnsiCommand parseInt16OrDefault ''2K''
     (answering (0, Some (Errno 6)) window80x25)
     = (Returns (2, None),
        (answering (0, Some (Errno 6)) window80x25)\<lparr>issued := [getConsoleScreenBufferInfoProc]\<rparr>)
   \<and> HandleOutputCommand parseAnsiCommand parseInt16OrDefault ''1m''
     (answering (0, Some (Errno 6)) window80x25)
     = (Returns (2, Some (Errno 6)),
        (answering (0, Some (Errno 6)) window80x25)\<lparr>issued := [setConsoleTextAttributeProc 0x000F]\<rparr>)"
  by (simp add: HandleOutputCommand_def parseAnsiCommand_def parseInt16OrDefault_def
        ParseInt_def ParseUint_def getParam_def case_visible_def case_J_def case_K_def case_m_def
        SetCursorVisible_def GetConsoleScreenBufferInfo_def setConsoleTextAttribute_def Call_def
        answering_def getWindowsTextAttributeForAnsiValue_def)

lemma answering_fields:
  "issued (answering answer info) = []"
  "status (answering answer info) before c = answer"
  "bufferInfo (answering answer info) before = info"
  by (simp_all add: answering_def)

lemma GetConsoleScreenBufferInfo_succeeds:
  "fst (status k (issued k) getConsoleScreenBufferInfoProc) \<noteq> 0 \<Longrightarrow>
   GetConsoleScreenBufferInfo k
   = (Inr (bufferInfo k (issued k)), k\<lparr>issued := issued k @ [getConsoleScreenBufferInfoProc]\<rparr>)"
  by (auto simp add: GetConsoleScreenBufferInfo_def Call_def split: prod.splits)

lemma clearDisplayRange_succeeds:
  "getNumberOfChars fromCoord toCoord windowSize \<noteq> 0 \<Longrightarrow>
   fst (status k (issued k)
          (fillConsoleOutputCharacterProc fillChar
             (getNumberOfChars fromCoord toCoord windowSize) (marshal fromCoord))) \<noteq> 0 \<Longrightarrow>
   clearDisplayRange fillChar fromCoord toCoord windowSize k
   = ((True, None),
      k\<lparr>issued := issued k @ [fillConsoleOutputCharacterProc fillChar
                   (getNumberOfChars fromCoord toCoord windowSize) (marshal fromCoord)]\<rparr>)"
  by (auto simp add: clearDisplayRange_def fillConsoleOutputCharacter_def Call_def Let_def
        word_greater_zero_iff split: prod.splits)

lemma setConsoleCursorPosition_succeeds:
  "fst (status k (issued k) getConsoleScreenBufferInfoProc) \<noteq> 0 \<Longrightarrow>
   fst (status k (issued k @ [getConsoleScreenBufferInfoProc])
          (setConsoleCursorPositionProc (marshal \<lparr>X = column, Y = line\<rparr>))) \<noteq> 0 \<Longrightarrow>
   setConsoleCursorPosition False column line k
   = ((True, None),
      k\<lparr>issued := issued k @ [getConsoleScreenBufferInfoProc,
                   setConsoleCursorPositionProc (marshal \<lparr>X = column, Y = line\<rparr>)]\<rparr>)"
  by (auto simp add: setConsoleCursorPosition_def GetConsoleScreenBufferInfo_succeeds Call_def
        Let_def split: prod.splits)

lemma whole_row_count_xy:
  assumes "0 < sint w" "0 < sint h"
  shows "getNumberOfChars \<lparr>X = 0, Y = h - 1\<rparr> \<lparr>X = w - 1, Y = h - 1\<rparr> \<lparr>X = w, Y = h\<rparr>
         = scast w"
proof -
  have h1: "sint (h - 1) = sint h - 1"
    using assms sint_range_16 [of h] sint_sub_16 [of h 1] by simp
  have w1: "sint (w - 1) = sint w - 1"
    using assms sint_range_16 [of w] sint_sub_16 [of w 1] by simp
  have "uint (getNumberOfChars \<lparr>X = 0, Y = h - 1\<rparr> \<lparr>X = w - 1, Y = h - 1\<rparr> \<lparr>X = w, Y = h\<rparr>)
        = sint (w - 1) - sint (0 :: SHORT) + 1"
    using assms h1 w1 by (intro getNumberOfChars_forwards) simp_all
  also have "\<dots> = sint w" using w1 by simp
  also have "\<dots> = uint (scast w :: 32 word)" using assms by (simp add: uint_scast_nonneg)
  finally show ?thesis by (simp add: word_uint_eq_iff)
qed

lemma whole_row_count:
  "0 < sint (X windowSize) \<Longrightarrow> 0 < sint (Y windowSize) \<Longrightarrow>
   getNumberOfChars \<lparr>X = 0, Y = Y windowSize - 1\<rparr>
     \<lparr>X = X windowSize - 1, Y = Y windowSize - 1\<rparr> windowSize
   = scast (X windowSize)"
  using whole_row_count_xy [of "X windowSize" "Y windowSize"] by (cases windowSize) simp

lemma scast_positive:
  assumes "0 < sint (w :: 16 word)"
  shows "(scast w :: 32 word) \<noteq> 0"
proof
  assume "(scast w :: 32 word) = 0"
  then have "uint (scast w :: 32 word) = 0" by simp
  moreover have "uint (scast w :: 32 word) = sint w"
    using assms by (simp add: uint_scast_nonneg)
  ultimately show False using assms by simp
qed

lemma case_K_succeeds:
  "fst (status k (issued k) getConsoleScreenBufferInfoProc) \<noteq> 0 \<Longrightarrow>
   case_K pio parsedCommand command k
   = clearAndSetCursor (rangeK (fst (pio (getParam parsedCommand 0) 0)) (bufferInfo k (issued k)))
       (MaximumWindowSize (bufferInfo k (issued k))) command
       (k\<lparr>issued := issued k @ [getConsoleScreenBufferInfoProc]\<rparr>)"
  by (simp add: case_K_def GetConsoleScreenBufferInfo_succeeds split: prod.splits)

text \<open>
  C8. For the parameter 2 the inner switch of the case \<open>K\<close> gives, for every snapshot,
  the start \<open>(0, maximumWindowHeight - 1)\<close>, the end
  \<open>(width - 1, maximumWindowHeight - 1)\<close> and the cursor \<open>(0, maximumWindowHeight - 1)\<close>;
  the cursor's row is not read. A \<open>K\<close> command with the parameter 2 whose snapshot
  query succeeds clears that range and then sets that cursor. When every native call
  succeeds and the maximum window has a positive width and height, the calls issued are
  the query, a fill of \<open>width\<close> spaces from \<open>(0, maximumWindowHeight - 1)\<close>, the query
  of the cursor move and the move to \<open>(0, maximumWindowHeight - 1)\<close>.
\<close>

theorem erase_line_2_clears_bottom_row:
  "rangeK 2 info
     = (\<lparr>X = 0, Y = Y (MaximumWindowSize info) - 1\<rparr>,
        \<lparr>X = X (MaximumWindowSize info) - 1, Y = Y (MaximumWindowSize info) - 1\<rparr>,
        \<lparr>X = 0, Y = Y (MaximumWindowSize info) - 1\<rparr>)
   \<and> (Command (parse command) = ''K'' \<and> fst (pio (getParam (parse command) 0) 0) = 2
        \<and> fst (status k (issued k) getConsoleScreenBufferInfoProc) \<noteq> 0
      \<longrightarrow> HandleOutputCommand parse pio command k
          = clearAndSetCursor (rangeK 2 (bufferInfo k (issued k)))
              (MaximumWindowSize (bufferInfo k (issued k))) command
              (k\<lparr>issued := issued k @ [getConsoleScreenBufferInfoProc]\<rparr>))
   \<and> (Command (parse command) = ''K'' \<and> fst (pio (getParam (parse command) 0) 0) = 2
        \<and> (\<forall>before c. fst (status k before c) \<noteq> 0)
        \<and> 0 < sint (X (MaximumWindowSize (bufferInfo k (issued k))))
        \<and> 0 < sint (Y (MaximumWindowSize (bufferInfo k (issued k))))
      \<longrightarrow> HandleOutputCommand parse pio command k
          = (Returns (length command, None),
             k\<lparr>issued := issued k @
                  [getConsoleScreenBufferInfoProc,
                   fillConsoleOutputCharacterProc 0x20
                     (scast (X (MaximumWindowSize (bufferInfo k (issued k)))))
                     (marshal \<lparr>X = 0, Y = Y (MaximumWindowSize (bufferInfo k (issued k))) - 1\<rparr>),
                   getConsoleScreenBufferInfoProc,
                   setConsoleCursorPositionProc
                     (marshal \<lparr>X = 0, Y = Y (MaximumWindowSize (bufferInfo k (issued k))) - 1\<rparr>)]\<rparr>))"
proof (intro conjI impI)
  show "rangeK 2 info
     = (\<lparr>X = 0, Y = Y (MaximumWindowSize info) - 1\<rparr>,
        \<lparr>X = X (MaximumWindowSize info) - 1, Y = Y (MaximumWindowSize info) - 1\<rparr>,
        \<lparr>X = 0, Y = Y (MaximumWindowSize info) - 1\<rparr>)"
    by (simp add: rangeK_def)
next
  assume a: "Command (parse command) = ''K'' \<and> fst (pio (getParam (parse command) 0) 0) = 2
        \<and> fst (status k (issued k) getConsoleScreenBufferInfoProc) \<noteq> 0"
  then have "case_K pio (parse command) command k
      = clearAndSetCursor (rangeK 2 (bufferInfo k (issued k)))
          (MaximumWindowSize (bufferInfo k (issued k))) command
          (k\<lparr>issued := issued k @ [getConsoleScreenBufferInfoProc]\<rparr>)"
    using case_K_succeeds [of k pio "parse command" command] by simp
  with a show "HandleOutputCommand parse pio command k
          = clearAndSetCursor (rangeK 2 (bufferInfo k (issued k)))
              (MaximumWindowSize (bufferInfo k (issued k))) command
              (k\<lparr>issued := issued k @ [getConsoleScreenBufferInfoProc]\<rparr>)"
    by (simp add: HandleOutputCommand_def)
next
  let ?m = "MaximumWindowSize (bufferInfo k (issued k))"
  let ?k1 = "k\<lparr>issued := issued k @ [getConsoleScreenBufferInfoProc]\<rparr>"
  let ?row = "\<lparr>X = 0, Y = Y ?m - 1\<rparr>"
  let ?fill = "fillConsoleOutputCharacterProc 0x20 (scast (X ?m)) (marshal ?row)"
  let ?k2 = "?k1\<lparr>issued := issued ?k1 @ [?fill]\<rparr>"
  assume a: "Command (parse command) = ''K'' \<and> fst (pio (getParam (parse command) 0) 0) = 2
        \<and> (\<forall>before c. fst (status k before c) \<noteq> 0)
        \<and> 0 < sint (X ?m) \<and> 0 < sint (Y ?m)"
  have n: "getNumberOfChars ?row \<lparr>X = X ?m - 1, Y = Y ?m - 1\<rparr> ?m = scast (X ?m)"
    using a whole_row_count [of ?m] by simp
  have n0: "(scast (X ?m) :: 32 word) \<noteq> 0"
    using a by (simp add: scast_positive)
  have c: "clearDisplayRange 0x20 ?row \<lparr>X = X ?m - 1, Y = Y ?m - 1\<rparr> ?m ?k1 = ((True, None), ?k2)"
    using a n n0
      clearDisplayRange_succeeds [of ?row "\<lparr>X = X ?m - 1, Y = Y ?m - 1\<rparr>" ?m ?k1 "0x20"]
    by simp
  have s: "setConsoleCursorPosition False 0 (Y ?m - 1) ?k2
      = ((True, None),
         ?k2\<lparr>issued := issued ?k2 @ [getConsoleScreenBufferInfoProc,
                        setConsoleCursorPositionProc (marshal ?row)]\<rparr>)"
    using a setConsoleCursorPosition_succeeds [of ?k2 0 "Y ?m - 1"] by simp
  have "HandleOutputCommand parse pio command k
      = clearAndSetCursor (rangeK 2 (bufferInfo k (issued k))) ?m command ?k1"
    using a case_K_succeeds [of k pio "parse command" command]
    by (simp add: HandleOutputCommand_def)
  also have "\<dots> = (Returns (length command, None),
         ?k2\<lparr>issued := issued ?k2 @ [getConsoleScreenBufferInfoProc,
                        setConsoleCursorPositionProc (marshal ?row)]\<rparr>)"
    using c s by (simp add: clearAndSetCursor_def rangeK_def)
  finally show "HandleOutputCommand parse pio command k
          = (Returns (length command, None),
             k\<lparr>issued := issued k @
                  [getConsoleScreenBufferInfoProc, ?fill, getConsoleScreenBufferInfoProc,
                   setConsoleCursorPositionProc (marshal ?row)]\<rparr>)"
    by simp
qed

theorem erase_line_2_clears_bottom_row_witness:
  "HandleOutputCommand parseAnsiCommand parseInt16OrDefault ''2K''
     (answering (1, None) window80x25)
   = (Returns (length ''2K'', None),
      (answering (1, None) window80x25)
        \<lparr>issued := [getConsoleScreenBufferInfoProc,
                    fillConsoleOutputCharacterProc 0x20 80 (marshal \<lparr>X = 0, Y = 24\<rparr>),
                    getConsoleScreenBufferInfoProc,
                    setConsoleCursorPositionProc (marshal \<lparr>X = 0, Y = 24\<rparr>)]\<rparr>)"
proof -
  have p: "parseAnsiCommand ''2K'' = \<lparr>Command = ''K'', Parameters = [''2'']\<rparr>"
    by (simp add: parseAnsiCommand_def)
  have v: "parseInt16OrDefault ''2'' 0 = (2, None)"
    by (simp add: parseInt16OrDefault_def ParseInt_def ParseUint_def)
  have m: "MaximumWindowSize window80x25 = \<lparr>X = 80, Y = 25\<rparr>"
    by (simp add: window80x25_def)
  show ?thesis
    using erase_line_2_clears_bottom_row [of window80x25 parseAnsiCommand "''2K''"
        parseInt16OrDefault "answering (1, None) window80x25", THEN conjunct2, THEN conjunct2]
    by (simp add: p v m answering_fields getParam_def)
qed

subsection \<open>The key event encoder\<close>








subsection \<open>Reading key events into a buffer\<close>

text \<open>
  C2. With one pending key-down event of the up arrow and a buffer \<open>p\<close> of one byte,
  \<open>ReadChars\<close> writes ESC at index 0 and then assigns at index 1, which is \<open>len(p)\<close>:
  the assignment panics. The test of \<open>charIndex\<close> against \<open>len(p)\<close> comes only after
  the whole key string. With two such events and a buffer of four bytes the first event
  fits and the second panics at index 4.
\<close>

theorem ReadChars_overruns_buffer:
  "ReadChars eventType toLower
     \<lparr>eventsStatus = (1, None), eventsNumber = 1, readStatus = (1, None), readNumber = 1,
      readRecords = [upArrowDown eventType 0]\<rparr> [0]
     = Panics ''index out of range''
   \<and> ReadChars eventType toLower
     \<lparr>eventsStatus = (1, None), eventsNumber = 2, readStatus = (1, None), readNumber = 2,
      readRecords = [upArrowDown eventType 0, upArrowDown eventType 0]\<rparr> [0, 0, 0, 0]
     = Panics ''index out of range''"
  by code_simp

end
